theory Spec2Isabelle
  imports Complex_Main "HOL-Library.Multiset"
begin

section \<open>Numbers\<close>

text \<open>
  The collage maker keeps an append-only log of actions and recomputes the sprites
  from it. This theory embeds the engine of the application source: the action
  fold, identifier and name allocation, gesture finalisation, undo and redo, and
  the JSON export and import.

  A JavaScript \<open>number\<close> is a double. The values of the model are the finite
  numbers \<open>Fin r\<close> (with \<open>Fin 0\<close> for the positive zero), the negative zero, the
  two infinities and \<open>NaN\<close>. The comparisons \<open>===\<close>, \<open><=\<close>, \<open>>=\<close> and
  \<open>Number.isFinite\<close> depend on the values only and are defined on them.
\<close>

datatype jsnum = Fin real | NegZero | PosInf | NegInf | NaN

definition isZero :: "jsnum \<Rightarrow> bool" where
  "isZero a = (a = Fin 0 \<or> a = NegZero)"

definition isInf :: "jsnum \<Rightarrow> bool" where
  "isInf a = (a = PosInf \<or> a = NegInf)"

text \<open>The real value of a finite number.\<close>

fun finVal :: "jsnum \<Rightarrow> real" where
  "finVal (Fin r) = r"
| "finVal _ = 0"

text \<open>\<open>Number.isFinite\<close>.\<close>

fun numIsFinite :: "jsnum \<Rightarrow> bool" where
  "numIsFinite (Fin r) = True"
| "numIsFinite NegZero = True"
| "numIsFinite _ = False"

text \<open>\<open>a === b\<close> on numbers: \<open>NaN\<close> equals nothing, the two zeros are equal.\<close>

definition js_eq :: "jsnum \<Rightarrow> jsnum \<Rightarrow> bool" where
  "js_eq a b = (a \<noteq> NaN \<and> b \<noteq> NaN \<and> (a = b \<or> (isZero a \<and> isZero b)))"

text \<open>\<open>a <= b\<close>: false when either side is \<open>NaN\<close>.\<close>

fun js_le :: "jsnum \<Rightarrow> jsnum \<Rightarrow> bool" where
  "js_le NaN b = False"
| "js_le a NaN = False"
| "js_le NegInf b = True"
| "js_le a PosInf = True"
| "js_le PosInf b = False"
| "js_le a NegInf = False"
| "js_le a b = (finVal a \<le> finVal b)"

text \<open>\<open>a >= b\<close>.\<close>

definition js_ge :: "jsnum \<Rightarrow> jsnum \<Rightarrow> bool" where
  "js_ge a b = js_le b a"

text \<open>
  What the source computes with numbers is rounded by the runtime, and the model
  does not fix how: the arithmetic of the runtime is a parameter \<open>rt\<close> of every
  function that computes. Its fields are \<open>a + b\<close>, \<open>a - b\<close>, \<open>a * b\<close>, \<open>a / b\<close>,
  \<open>Math.hypot(a, b)\<close>, \<open>Number.parseInt(s, 10)\<close> and \<open>String(a)\<close>. A theorem that
  holds for every \<open>rt\<close> holds for the arithmetic of doubles.
\<close>

record JsRuntime =
  rt_add :: "jsnum \<Rightarrow> jsnum \<Rightarrow> jsnum"
  rt_sub :: "jsnum \<Rightarrow> jsnum \<Rightarrow> jsnum"
  rt_mul :: "jsnum \<Rightarrow> jsnum \<Rightarrow> jsnum"
  rt_div :: "jsnum \<Rightarrow> jsnum \<Rightarrow> jsnum"
  rt_hypot :: "jsnum \<Rightarrow> jsnum \<Rightarrow> jsnum"
  rt_parseInt :: "string \<Rightarrow> jsnum"
  rt_toString :: "jsnum \<Rightarrow> string"

section \<open>Data model\<close>

text \<open>
  Modelling conventions.
  \<^item> Sprite ids are \<open>nat\<close> (the source only produces them as \<open>0\<close> or \<open>1 + max\<close>).
  \<^item> A string is a \<open>char list\<close>; \<open>toLowerCase\<close> is modelled on ASCII letters.
  \<^item> An \<open>ImageFile\<close> value stands for the object: \<open>im_ref\<close> is its identity and
    replaces the pixel data, the URL and the image element, so that \<open>===\<close> on
    images is equality of the values.
  \<^item> Record fields carry a prefix (\<open>im_\<close>, \<open>sp_\<close>, \<open>is_\<close>, \<open>st_\<close>, \<open>pb_\<close>) since two
    records cannot share a field name.
  \<^item> The loop that searches an unused name may run forever; a function that
    depends on it returns an option, and \<open>None\<close> is not returning.
\<close>

datatype LayerChangeKind = MoveUp | MoveDown | MoveToTop | MoveToBottom

datatype PasteBufferMode = NoOp | Width | Height

record ImageFile =
  im_name :: string
  im_width :: jsnum
  im_height :: jsnum
  im_sha256 :: string
  im_ref :: nat

record IdealSprite =
  is_spriteName :: string
  is_image :: ImageFile
  is_x :: jsnum
  is_y :: jsnum
  is_width :: jsnum

datatype Action =
    Create ImageFile
  | Delete nat
  | Duplicate nat
  | Translate nat jsnum jsnum
  | Scale nat jsnum
  | ReorderLayers nat LayerChangeKind
  | Rename nat string
  | BulkImport "IdealSprite list"

text \<open>
  A pending transformation: sprite id, pointer start x and y, pointer current x
  and y.
\<close>

datatype PendingSpriteTransformation =
    PendingTranslate nat jsnum jsnum jsnum jsnum
  | PendingScale nat jsnum jsnum jsnum jsnum

record Sprite =
  sp_name :: string
  sp_id :: nat
  sp_image :: ImageFile
  sp_x :: jsnum
  sp_y :: jsnum
  sp_width :: jsnum

record PasteBuffer =
  pb_mode :: PasteBufferMode
  pb_value :: jsnum

record State =
  st_isProcessingImageFile :: bool
  st_isProcessingJsonFile :: bool
  st_imageFiles :: "ImageFile list"
  st_canvasWidthInput :: string
  st_canvasHeightInput :: string
  st_canvasScaleInput :: string
  st_canvasBackgroundColorInput :: string
  st_actions :: "Action list"
  st_redoStack :: "Action list"
  st_pendingTransformation :: "PendingSpriteTransformation option"
  st_isMouseOverCanvas :: bool
  st_pasteBuffer :: PasteBuffer

section \<open>Strings\<close>

definition lowerChar :: "char \<Rightarrow> char" where
  "lowerChar c =
     (case map_of (zip ''ABCDEFGHIJKLMNOPQRSTUVWXYZ'' ''abcdefghijklmnopqrstuvwxyz'') c of
        Some l \<Rightarrow> l
      | None \<Rightarrow> c)"

definition toLowerCase :: "string \<Rightarrow> string" where
  "toLowerCase s = map lowerChar s"

definition endsWith :: "string \<Rightarrow> string \<Rightarrow> bool" where
  "endsWith s e = (length e \<le> length s \<and> drop (length s - length e) s = e)"

definition startsWith :: "string \<Rightarrow> string \<Rightarrow> bool" where
  "startsWith s p = (take (length p) s = p)"

definition IMAGE_EXTENSIONS :: "string list" where
  "IMAGE_EXTENSIONS = [''.png'', ''.jpg'', ''.jpeg'', ''.svg'']"

text \<open>
  \<open>lastPathSegment s\<close> is \<open>s.split(/\/|\\/).slice(-1)[0]\<close>: what follows the last
  slash or backslash.
\<close>

definition lastPathSegment :: "string \<Rightarrow> string" where
  "lastPathSegment s = rev (takeWhile (\<lambda>c. c \<noteq> CHR ''/'' \<and> c \<noteq> CHR 0x5C) (rev s))"

definition isImageFileName :: "string \<Rightarrow> bool" where
  "isImageFileName nm =
     (let lowerCaseName = toLowerCase nm in
      if lowerCaseName = [] \<or> startsWith (lastPathSegment lowerCaseName) ''.''
      then False
      else list_ex (\<lambda>extension. endsWith lowerCaseName extension) IMAGE_EXTENSIONS)"

text \<open>
  \<open>stripExtension s\<close> is \<open>s.replace(/\.[^.]*$/, "")\<close>: the last dot and what
  follows it are removed; a string without a dot is returned as it is.
\<close>

definition stripExtension :: "string \<Rightarrow> string" where
  "stripExtension s =
     (if CHR ''.'' \<in> set s then rev (tl (dropWhile (\<lambda>c. c \<noteq> CHR ''.'') (rev s))) else s)"

definition isDigit :: "char \<Rightarrow> bool" where
  "isDigit c = (c \<in> set ''0123456789'')"

text \<open>
  \<open>matchCounterSuffix s\<close> is \<open>/ \((\d+)\)$/.exec(s)\<close>: when \<open>s\<close> ends with a space,
  an opening parenthesis, one or more digits and a closing parenthesis, the result
  is the part of \<open>s\<close> before the match and the digits (group 1).
\<close>

definition matchCounterSuffix :: "string \<Rightarrow> (string \<times> string) option" where
  "matchCounterSuffix s =
     (case rev s of
        [] \<Rightarrow> None
      | c # r \<Rightarrow>
          if c \<noteq> CHR '')'' then None
          else
            (let ds = takeWhile isDigit r; r' = dropWhile isDigit r in
             if ds = [] then None
             else
               (case r' of
                  p # q # b \<Rightarrow>
                    if p = CHR ''('' \<and> q = CHR '' '' then Some (rev b, rev ds) else None
                | _ \<Rightarrow> None)))"

section \<open>Identifier and name allocation\<close>

definition getUnusedId :: "Sprite list \<Rightarrow> nat" where
  "getUnusedId sprites =
     (if length sprites = 0 then 0 else 1 + Max (set (map sp_id sprites)))"

text \<open>
  The \<open>while (true)\<close> loop of \<open>getUnusedSpriteNameWithMinimumCounter\<close>: the
  candidate is the ideal name followed by the counter in parentheses, and the
  counter goes up by \<open>++counter\<close> until the candidate is not an existing name.
  The counter is a double: once it is \<open>2^53\<close>, adding one leaves it as it is, and
  the loop does not end when that candidate is taken.
\<close>

definition candidateName :: "JsRuntime \<Rightarrow> string \<Rightarrow> jsnum \<Rightarrow> string" where
  "candidateName rt idealName counter =
     idealName @ '' ('' @ rt_toString rt counter @ '')''"

partial_function (option) firstUnusedCandidate ::
    "JsRuntime \<Rightarrow> string \<Rightarrow> string list \<Rightarrow> jsnum \<Rightarrow> string option" where
  "firstUnusedCandidate rt idealName existingNames counter =
     (if candidateName rt idealName counter \<notin> set existingNames
      then Some (candidateName rt idealName counter)
      else firstUnusedCandidate rt idealName existingNames (rt_add rt counter (Fin 1)))"

lemma matchCounterSuffix_shorter:
  "matchCounterSuffix s = Some (b, ds) \<Longrightarrow> length b < length s"
proof -
  assume m: "matchCounterSuffix s = Some (b, ds)"
  then obtain c r where rs: "rev s = c # r"
    by (cases "rev s") (auto simp: matchCounterSuffix_def)
  from m rs obtain p q b' where r': "dropWhile isDigit r = p # q # b'" and b: "b = rev b'"
    by (auto simp: matchCounterSuffix_def Let_def split: if_splits list.splits)
  have "length (dropWhile isDigit r) \<le> length r"
    by (rule length_dropWhile_le)
  with r' have "length b' < length r" by simp
  moreover from rs have "length s = Suc (length r)"
    by (metis length_Cons length_rev)
  ultimately show ?thesis using b by simp
qed

lemma matchCounterSuffix_fst_shorter:
  "matchCounterSuffix s = Some m \<Longrightarrow> length (fst m) < length s"
  by (cases m) (simp add: matchCounterSuffix_shorter)

function getUnusedSpriteNameWithMinimumCounter ::
    "JsRuntime \<Rightarrow> string \<Rightarrow> Sprite list \<Rightarrow> jsnum \<Rightarrow> string option" where
  "getUnusedSpriteNameWithMinimumCounter rt idealName sprites minimumCounter =
     (let existingNames = map sp_name sprites in
      if idealName \<notin> set existingNames then Some idealName
      else
        (case matchCounterSuffix idealName of
           Some m \<Rightarrow>
             getUnusedSpriteNameWithMinimumCounter rt (fst m) sprites
               (rt_add rt (Fin 1) (rt_parseInt rt (snd m)))
         | None \<Rightarrow> firstUnusedCandidate rt idealName existingNames minimumCounter))"
  by pat_completeness auto
termination
  by (relation "measure (\<lambda>(rt, nm, sprites, c). length nm)")
     (auto dest: matchCounterSuffix_fst_shorter)

declare getUnusedSpriteNameWithMinimumCounter.simps [simp del]

definition getUnusedSpriteName :: "JsRuntime \<Rightarrow> string \<Rightarrow> Sprite list \<Rightarrow> string option" where
  "getUnusedSpriteName rt idealName sprites =
     getUnusedSpriteNameWithMinimumCounter rt idealName sprites (Fin 1)"


section \<open>The action fold\<close>

text \<open>The height of a sprite is never stored: it is \<open>width * image.height / image.width\<close>.\<close>

definition derivedHeight :: "JsRuntime \<Rightarrow> jsnum \<Rightarrow> ImageFile \<Rightarrow> jsnum" where
  "derivedHeight rt w img = rt_div rt (rt_mul rt w (im_height img)) (im_width img)"

definition applySpriteCreation :: "JsRuntime \<Rightarrow> ImageFile \<Rightarrow> Sprite list \<Rightarrow> Sprite list option" where
  "applySpriteCreation rt img sprites =
     (let idealName =
            (if isImageFileName (im_name img) then stripExtension (im_name img)
             else im_name img)
      in case getUnusedSpriteName rt idealName sprites of
           None \<Rightarrow> None
         | Some unusedName \<Rightarrow>
             Some (sprites @
                   [\<lparr>sp_name = unusedName,
                     sp_id = getUnusedId sprites,
                     sp_image = img,
                     sp_x = Fin 0,
                     sp_y = Fin 0,
                     sp_width = im_width img\<rparr>]))"

definition applySpriteDeletion :: "nat \<Rightarrow> Sprite list \<Rightarrow> Sprite list" where
  "applySpriteDeletion spriteId sprites = filter (\<lambda>sprite. sp_id sprite \<noteq> spriteId) sprites"

definition applySpriteDuplication :: "JsRuntime \<Rightarrow> nat \<Rightarrow> Sprite list \<Rightarrow> Sprite list option" where
  "applySpriteDuplication rt spriteId sprites =
     (case find (\<lambda>s. sp_id s = spriteId) sprites of
        None \<Rightarrow> Some sprites
      | Some original \<Rightarrow>
          (case getUnusedSpriteName rt (sp_name original) sprites of
             None \<Rightarrow> None
           | Some unusedName \<Rightarrow>
               Some (sprites @
                     [\<lparr>sp_name = unusedName,
                       sp_id = getUnusedId sprites,
                       sp_image = sp_image original,
                       sp_x = sp_x original,
                       sp_y = sp_y original,
                       sp_width = sp_width original\<rparr>])))"

definition applySpriteTranslation :: "nat \<Rightarrow> jsnum \<Rightarrow> jsnum \<Rightarrow> Sprite list \<Rightarrow> Sprite list" where
  "applySpriteTranslation spriteId newX newY sprites =
     map (\<lambda>sprite.
            if sp_id sprite = spriteId then sprite\<lparr>sp_x := newX, sp_y := newY\<rparr> else sprite)
         sprites"

definition applySpriteScaling :: "JsRuntime \<Rightarrow> nat \<Rightarrow> jsnum \<Rightarrow> Sprite list \<Rightarrow> Sprite list" where
  "applySpriteScaling rt spriteId newWidth sprites =
     map (\<lambda>sprite.
            if sp_id sprite \<noteq> spriteId then sprite
            else
              (let oldWidth = sp_width sprite;
                   newHeight =
                     rt_div rt (rt_mul rt newWidth (im_height (sp_image sprite)))
                       (im_width (sp_image sprite));
                   oldHeight =
                     rt_div rt (rt_mul rt (sp_width sprite) (im_height (sp_image sprite)))
                       (im_width (sp_image sprite))
               in sprite\<lparr>sp_x :=
                           rt_sub rt (sp_x sprite)
                             (rt_div rt (rt_sub rt newWidth oldWidth) (Fin 2)),
                         sp_y :=
                           rt_sub rt (sp_y sprite)
                             (rt_div rt (rt_sub rt newHeight oldHeight) (Fin 2)),
                         sp_width := newWidth\<rparr>))
         sprites"

text \<open>\<open>findIndex P xs\<close> is \<open>xs.findIndex(P)\<close>, with \<open>None\<close> for \<open>-1\<close>.\<close>

fun findIndex :: "('a \<Rightarrow> bool) \<Rightarrow> 'a list \<Rightarrow> nat option" where
  "findIndex P [] = None"
| "findIndex P (x # xs) =
     (if P x then Some 0 else (case findIndex P xs of None \<Rightarrow> None | Some i \<Rightarrow> Some (Suc i)))"

definition applySpriteLayerReordering ::
    "nat \<Rightarrow> LayerChangeKind \<Rightarrow> Sprite list \<Rightarrow> Sprite list" where
  "applySpriteLayerReordering spriteId layerChangeKind sprites =
     (case findIndex (\<lambda>s. sp_id s = spriteId) sprites of
        None \<Rightarrow> sprites
      | Some spriteIndex \<Rightarrow>
          (let sprite = sprites ! spriteIndex in
           case layerChangeKind of
             MoveUp \<Rightarrow>
               if spriteIndex = length sprites - 1 then sprites
               else take spriteIndex sprites
                    @ [sprites ! (spriteIndex + 1), sprite]
                    @ drop (spriteIndex + 2) sprites
           | MoveDown \<Rightarrow>
               if spriteIndex = 0 then sprites
               else take (spriteIndex - 1) sprites
                    @ [sprite, sprites ! (spriteIndex - 1)]
                    @ drop (spriteIndex + 1) sprites
           | MoveToTop \<Rightarrow>
               take spriteIndex sprites @ drop (spriteIndex + 1) sprites @ [sprite]
           | MoveToBottom \<Rightarrow>
               [sprite] @ take spriteIndex sprites @ drop (spriteIndex + 1) sprites))"

definition applySpriteRenaming ::
    "JsRuntime \<Rightarrow> nat \<Rightarrow> string \<Rightarrow> Sprite list \<Rightarrow> Sprite list option" where
  "applySpriteRenaming rt spriteId idealNewName sprites =
     (case getUnusedSpriteName rt idealNewName sprites of
        None \<Rightarrow> None
      | Some newName \<Rightarrow>
          Some (map (\<lambda>sprite.
                       if sp_id sprite = spriteId then sprite\<lparr>sp_name := newName\<rparr> else sprite)
                    sprites))"

text \<open>
  \<open>applyBulkImport\<close> pushes one sprite per ideal sprite onto a copy of the
  sequence; the name and the id of each are computed from what has been pushed
  so far.
\<close>

fun applyBulkImport :: "JsRuntime \<Rightarrow> IdealSprite list \<Rightarrow> Sprite list \<Rightarrow> Sprite list option" where
  "applyBulkImport rt [] out = Some out"
| "applyBulkImport rt (idealSprite # idealSprites) out =
     (case getUnusedSpriteName rt (is_spriteName idealSprite) out of
        None \<Rightarrow> None
      | Some spriteName \<Rightarrow>
          applyBulkImport rt idealSprites
            (out @
             [\<lparr>sp_name = spriteName,
               sp_id = getUnusedId out,
               sp_image = is_image idealSprite,
               sp_x = is_x idealSprite,
               sp_y = is_y idealSprite,
               sp_width = is_width idealSprite\<rparr>]))"

fun applyAction :: "JsRuntime \<Rightarrow> Action \<Rightarrow> Sprite list \<Rightarrow> Sprite list option" where
  "applyAction rt (Create img) sprites = applySpriteCreation rt img sprites"
| "applyAction rt (Delete spriteId) sprites = Some (applySpriteDeletion spriteId sprites)"
| "applyAction rt (Duplicate spriteId) sprites = applySpriteDuplication rt spriteId sprites"
| "applyAction rt (Translate spriteId newX newY) sprites =
     Some (applySpriteTranslation spriteId newX newY sprites)"
| "applyAction rt (Scale spriteId newWidth) sprites =
     Some (applySpriteScaling rt spriteId newWidth sprites)"
| "applyAction rt (ReorderLayers spriteId layerChangeKind) sprites =
     Some (applySpriteLayerReordering spriteId layerChangeKind sprites)"
| "applyAction rt (Rename spriteId idealNewName) sprites =
     applySpriteRenaming rt spriteId idealNewName sprites"
| "applyAction rt (BulkImport idealSprites) sprites = applyBulkImport rt idealSprites sprites"

section \<open>Pending transformations\<close>

definition finalizePendingSpriteTranslation ::
    "JsRuntime \<Rightarrow> nat \<Rightarrow> jsnum \<Rightarrow> jsnum \<Rightarrow> jsnum \<Rightarrow> jsnum \<Rightarrow> Sprite list \<Rightarrow> Action" where
  "finalizePendingSpriteTranslation rt spriteId pointerStartX pointerStartY
       pointerCurrentX pointerCurrentY sprites =
     (let oldSprite = find (\<lambda>s. sp_id s = spriteId) sprites;
          oldX = (case oldSprite of None \<Rightarrow> Fin 0 | Some s \<Rightarrow> sp_x s);
          oldY = (case oldSprite of None \<Rightarrow> Fin 0 | Some s \<Rightarrow> sp_y s)
      in Translate spriteId
           (rt_add rt oldX (rt_sub rt pointerCurrentX pointerStartX))
           (rt_add rt oldY (rt_sub rt pointerCurrentY pointerStartY)))"

definition finalizePendingSpriteScaling ::
    "JsRuntime \<Rightarrow> nat \<Rightarrow> jsnum \<Rightarrow> jsnum \<Rightarrow> jsnum \<Rightarrow> jsnum \<Rightarrow> Sprite list \<Rightarrow> Action" where
  "finalizePendingSpriteScaling rt spriteId pointerStartX pointerStartY
       pointerCurrentX pointerCurrentY sprites =
     (let oldSprite = find (\<lambda>s. sp_id s = spriteId) sprites;
          oldX = (case oldSprite of None \<Rightarrow> Fin 0 | Some s \<Rightarrow> sp_x s);
          oldY = (case oldSprite of None \<Rightarrow> Fin 0 | Some s \<Rightarrow> sp_y s);
          oldWidth = (case oldSprite of None \<Rightarrow> Fin 0 | Some s \<Rightarrow> sp_width s);
          oldImageWidth =
            (case oldSprite of None \<Rightarrow> Fin 0 | Some s \<Rightarrow> im_width (sp_image s));
          oldImageHeight =
            (case oldSprite of None \<Rightarrow> Fin 0 | Some s \<Rightarrow> im_height (sp_image s))
      in if js_eq pointerCurrentX pointerStartX \<and> js_eq pointerCurrentY pointerStartY
         then Scale spriteId oldWidth
         else
           (let centerX = rt_add rt oldX (rt_div rt oldWidth (Fin 2));
                centerY =
                  rt_add rt oldY
                    (rt_div rt (rt_div rt (rt_mul rt oldWidth oldImageHeight) oldImageWidth)
                       (Fin 2));
                startPointerDistance =
                  rt_hypot rt (rt_sub rt pointerStartX centerX) (rt_sub rt pointerStartY centerY);
                currentPointerDistance =
                  rt_hypot rt (rt_sub rt pointerCurrentX centerX)
                    (rt_sub rt pointerCurrentY centerY)
            in Scale spriteId
                 (rt_div rt (rt_mul rt oldWidth currentPointerDistance) startPointerDistance)))"

fun finalizePendingSpriteTransformation ::
    "JsRuntime \<Rightarrow> PendingSpriteTransformation \<Rightarrow> Sprite list \<Rightarrow> Action" where
  "finalizePendingSpriteTransformation rt (PendingTranslate spriteId sx sy cx cy) sprites =
     finalizePendingSpriteTranslation rt spriteId sx sy cx cy sprites"
| "finalizePendingSpriteTransformation rt (PendingScale spriteId sx sy cx cy) sprites =
     finalizePendingSpriteScaling rt spriteId sx sy cx cy sprites"

definition applyPendingTransformation ::
    "JsRuntime \<Rightarrow> PendingSpriteTransformation \<Rightarrow> Sprite list \<Rightarrow> Sprite list option" where
  "applyPendingTransformation rt transformation sprites =
     applyAction rt (finalizePendingSpriteTransformation rt transformation sprites) sprites"

text \<open>
  \<open>getSprites\<close> reads the two fields \<open>actions\<close> and \<open>pendingTransformation\<close> of its
  argument; \<open>foldActions\<close> is its \<open>for\<close> loop over the actions.
\<close>

fun foldActions :: "JsRuntime \<Rightarrow> Action list \<Rightarrow> Sprite list \<Rightarrow> Sprite list option" where
  "foldActions rt [] sprites = Some sprites"
| "foldActions rt (action # actions) sprites =
     (case applyAction rt action sprites of
        None \<Rightarrow> None
      | Some sprites' \<Rightarrow> foldActions rt actions sprites')"

definition getSprites ::
    "JsRuntime \<Rightarrow> Action list \<Rightarrow> PendingSpriteTransformation option \<Rightarrow> Sprite list option" where
  "getSprites rt actions pendingTransformation =
     (case foldActions rt actions [] of
        None \<Rightarrow> None
      | Some sprites \<Rightarrow>
          (case pendingTransformation of
             None \<Rightarrow> Some sprites
           | Some t \<Rightarrow> applyPendingTransformation rt t sprites))"

section \<open>Meaningful actions\<close>

definition areSpritesEqual :: "Sprite \<Rightarrow> Sprite \<Rightarrow> bool" where
  "areSpritesEqual a b =
     (sp_name a = sp_name b \<and> sp_id a = sp_id b \<and> sp_image a = sp_image b \<and>
      js_eq (sp_x a) (sp_x b) \<and> js_eq (sp_y a) (sp_y b) \<and>
      js_eq (sp_width a) (sp_width b))"

definition areSpriteArraysEqual :: "Sprite list \<Rightarrow> Sprite list \<Rightarrow> bool" where
  "areSpriteArraysEqual a b =
     (length a = length b \<and> list_all2 areSpritesEqual a b)"

text \<open>
  The loop of \<open>getMeaningfulActions\<close>, with its two variables \<open>sprites\<close> and \<open>out\<close>.
\<close>

fun meaningfulLoop ::
    "JsRuntime \<Rightarrow> Action list \<Rightarrow> Sprite list \<Rightarrow> Action list \<Rightarrow> Action list option" where
  "meaningfulLoop rt [] sprites out = Some out"
| "meaningfulLoop rt (action # actions) sprites out =
     (case applyAction rt action sprites of
        None \<Rightarrow> None
      | Some newSprites \<Rightarrow>
          if \<not> areSpriteArraysEqual sprites newSprites
          then meaningfulLoop rt actions newSprites (out @ [action])
          else meaningfulLoop rt actions sprites out)"

definition getMeaningfulActions :: "JsRuntime \<Rightarrow> Action list \<Rightarrow> Action list option" where
  "getMeaningfulActions rt actions = meaningfulLoop rt actions [] []"

section \<open>Export and import\<close>

text \<open>
  A parsed JSON value. A number is any double but \<open>NaN\<close> (\<open>JSON.parse\<close> gives an
  infinity for a literal such as \<open>1e999\<close>). An object is the list of its
  properties, looked up by name (a parsed object has one value for a name).
\<close>

datatype json =
    JNull
  | JBool bool
  | JNum jsnum
  | JStr string
  | JArr "json list"
  | JObj "(string \<times> json) list"

text \<open>\<open>getProperty v k\<close> is \<open>v[k]\<close> for the property names the validator reads;
  \<open>None\<close> is \<open>undefined\<close>.\<close>

fun getProperty :: "json \<Rightarrow> string \<Rightarrow> json option" where
  "getProperty (JObj props) k = map_of props k"
| "getProperty _ k = None"

text \<open>
  What \<open>JSON.stringify\<close> followed by \<open>JSON.parse\<close> makes of a number: a number that
  is not finite is written as \<open>null\<close>, and the negative zero as \<open>0\<close>.
\<close>

definition jsonNumber :: "jsnum \<Rightarrow> json" where
  "jsonNumber a =
     (if \<not> numIsFinite a then JNull else if a = NegZero then JNum (Fin 0) else JNum a)"

text \<open>
  \<open>serializeSprites\<close> is the array that \<open>serializeSpritesAsJsonString\<close> hands to
  \<open>JSON.stringify\<close>, as the JSON value that parsing the string gives back;
  \<open>spriteExportData\<close> is the record it holds for one sprite.
\<close>

definition spriteExportData :: "JsRuntime \<Rightarrow> Sprite \<Rightarrow> json" where
  "spriteExportData rt sprite =
     JObj [(''spriteName'', JStr (sp_name sprite)),
           (''imageFileName'', JStr (im_name (sp_image sprite))),
           (''imageSha256'', JStr (im_sha256 (sp_image sprite))),
           (''x'', jsonNumber (sp_x sprite)),
           (''y'', jsonNumber (sp_y sprite)),
           (''width'', jsonNumber (sp_width sprite)),
           (''height'',
              jsonNumber
                (rt_div rt (rt_mul rt (sp_width sprite) (im_height (sp_image sprite)))
                   (im_width (sp_image sprite))))]"

definition serializeSprites :: "JsRuntime \<Rightarrow> Sprite list \<Rightarrow> json" where
  "serializeSprites rt sprites = JArr (map (spriteExportData rt) sprites)"

text \<open>
  The errors of the import, one constructor per message of the source. The
  arguments are the values that the message interpolates:
  \<^item> \<open>NotAnArray v\<close>: ``Expected an array of objects but got \<open>v\<close>'';
  \<^item> \<open>NotAnObject f s v\<close>: ``Expected files[\<open>f\<close>].sprites[\<open>s\<close>] to be an object, but
    got \<open>v\<close>'';
  \<^item> \<open>NotAString f s field v\<close>: ``Expected files[\<open>f\<close>].sprites[\<open>s\<close>].\<open>field\<close> to be a
    string, but got \<open>v\<close>'';
  \<^item> \<open>ImageNotFound hash f s\<close>: ``Could not find an image with SHA256 hash \<open>hash\<close>
    (referenced by files[\<open>f\<close>].sprites[\<open>s\<close>].imageSha256)'';
  \<^item> \<open>NotAFiniteNumber f s field v\<close>: ``Expected files[\<open>f\<close>].sprites[\<open>s\<close>].\<open>field\<close> to
    be a finite number, but got \<open>v\<close>'';
  \<^item> \<open>NotANonNegativeFiniteNumber f s field v\<close>: ``Expected
    files[\<open>f\<close>].sprites[\<open>s\<close>].\<open>field\<close> to be a non-negative finite number, but got
    \<open>v\<close>'';
  \<^item> \<open>AspectRatioMismatch f s iw ih w h\<close>: ``Expected files[\<open>f\<close>].sprites[\<open>s\<close>].width /
    .height to be "close" to \<open>iw\<close> / \<open>ih\<close>, but got \<open>w\<close> / \<open>h\<close>. We define "close" as
    within 0.001.''
\<close>

datatype ImportError =
    NotAnArray json
  | NotAnObject nat nat json
  | NotAString nat nat string "json option"
  | ImageNotFound string nat nat
  | NotAFiniteNumber nat nat string "json option"
  | NotANonNegativeFiniteNumber nat nat string "json option"
  | AspectRatioMismatch nat nat jsnum jsnum jsnum jsnum

text \<open>The literal \<open>0.001\<close> is the double nearest to it, \<open>1152921504606847 / 2^60\<close>.\<close>

definition MAX_IMPORT_ASPECT_RATIO_DIFF :: jsnum where
  "MAX_IMPORT_ASPECT_RATIO_DIFF = Fin (1152921504606847 / 2 ^ 60)"

text \<open>
  The body of the inner loop of \<open>importSpriteDotJson\<close>: the checks on one record,
  in the order of the source, each returning its error on failure. The source
  writes every check out; the three kinds of check that it repeats are the
  functions \<open>expectString\<close>, \<open>expectFiniteNumber\<close> and
  \<open>expectNonNegativeFiniteNumber\<close> here.
\<close>

text \<open>\<open>typeof v === "string"\<close> for the property \<open>field\<close> of the record.\<close>

definition expectString :: "nat \<Rightarrow> nat \<Rightarrow> string \<Rightarrow> json \<Rightarrow> ImportError + string" where
  "expectString fileIndex spriteIndex field sprite =
     (case getProperty sprite field of
        Some (JStr v) \<Rightarrow> Inr v
      | v \<Rightarrow> Inl (NotAString fileIndex spriteIndex field v))"

text \<open>\<open>typeof v === "number" && Number.isFinite(v)\<close>.\<close>

definition expectFiniteNumber :: "nat \<Rightarrow> nat \<Rightarrow> string \<Rightarrow> json \<Rightarrow> ImportError + jsnum" where
  "expectFiniteNumber fileIndex spriteIndex field sprite =
     (case getProperty sprite field of
        Some (JNum v) \<Rightarrow>
          if numIsFinite v then Inr v
          else Inl (NotAFiniteNumber fileIndex spriteIndex field (Some (JNum v)))
      | v \<Rightarrow> Inl (NotAFiniteNumber fileIndex spriteIndex field v))"

text \<open>\<open>typeof v === "number" && Number.isFinite(v) && v >= 0\<close>.\<close>

definition expectNonNegativeFiniteNumber ::
    "nat \<Rightarrow> nat \<Rightarrow> string \<Rightarrow> json \<Rightarrow> ImportError + jsnum" where
  "expectNonNegativeFiniteNumber fileIndex spriteIndex field sprite =
     (case getProperty sprite field of
        Some (JNum v) \<Rightarrow>
          if numIsFinite v \<and> js_ge v (Fin 0) then Inr v
          else Inl (NotANonNegativeFiniteNumber fileIndex spriteIndex field (Some (JNum v)))
      | v \<Rightarrow> Inl (NotANonNegativeFiniteNumber fileIndex spriteIndex field v))"

text \<open>
  The last check: \<open>width / height - image.width / image.height <= 0.001\<close> must
  hold, or the record is refused.
\<close>

definition aspectRatioAccepted :: "JsRuntime \<Rightarrow> jsnum \<Rightarrow> jsnum \<Rightarrow> ImageFile \<Rightarrow> bool" where
  "aspectRatioAccepted rt w h img =
     js_le (rt_sub rt (rt_div rt w h) (rt_div rt (im_width img) (im_height img)))
       MAX_IMPORT_ASPECT_RATIO_DIFF"

definition checkSprite ::
    "JsRuntime \<Rightarrow> nat \<Rightarrow> nat \<Rightarrow> ImageFile list \<Rightarrow> json \<Rightarrow> ImportError + IdealSprite" where
  "checkSprite rt fileIndex spriteIndex imageFiles uncheckedSprite =
     (if \<not> (case uncheckedSprite of JArr _ \<Rightarrow> True | JObj _ \<Rightarrow> True | _ \<Rightarrow> False)
      then Inl (NotAnObject fileIndex spriteIndex uncheckedSprite)
      else
      case expectString fileIndex spriteIndex ''spriteName'' uncheckedSprite of
        Inl e \<Rightarrow> Inl e
      | Inr spriteName \<Rightarrow>
      case expectString fileIndex spriteIndex ''imageFileName'' uncheckedSprite of
        Inl e \<Rightarrow> Inl e
      | Inr imageFileName \<Rightarrow>
      case expectString fileIndex spriteIndex ''imageSha256'' uncheckedSprite of
        Inl e \<Rightarrow> Inl e
      | Inr imageSha256 \<Rightarrow>
      case find (\<lambda>i. im_sha256 i = imageSha256) imageFiles of
        None \<Rightarrow> Inl (ImageNotFound imageSha256 fileIndex spriteIndex)
      | Some img \<Rightarrow>
      case expectFiniteNumber fileIndex spriteIndex ''x'' uncheckedSprite of
        Inl e \<Rightarrow> Inl e
      | Inr x \<Rightarrow>
      case expectFiniteNumber fileIndex spriteIndex ''y'' uncheckedSprite of
        Inl e \<Rightarrow> Inl e
      | Inr y \<Rightarrow>
      case expectNonNegativeFiniteNumber fileIndex spriteIndex ''width'' uncheckedSprite of
        Inl e \<Rightarrow> Inl e
      | Inr w \<Rightarrow>
      case expectNonNegativeFiniteNumber fileIndex spriteIndex ''height'' uncheckedSprite of
        Inl e \<Rightarrow> Inl e
      | Inr h \<Rightarrow>
      if \<not> aspectRatioAccepted rt w h img
      then Inl (AspectRatioMismatch fileIndex spriteIndex (im_width img) (im_height img) w h)
      else Inr \<lparr>is_spriteName = spriteName,
                is_image = img,
                is_x = x,
                is_y = y,
                is_width = w\<rparr>)"

text \<open>The inner loop over the records of one document, from \<open>spriteIndex\<close> on.\<close>

fun importSprites ::
    "JsRuntime \<Rightarrow> nat \<Rightarrow> nat \<Rightarrow> ImageFile list \<Rightarrow> json list \<Rightarrow> IdealSprite list
       \<Rightarrow> ImportError + IdealSprite list" where
  "importSprites rt fileIndex spriteIndex imageFiles [] idealSprites = Inr idealSprites"
| "importSprites rt fileIndex spriteIndex imageFiles (uncheckedSprite # rest) idealSprites =
     (case checkSprite rt fileIndex spriteIndex imageFiles uncheckedSprite of
        Inl e \<Rightarrow> Inl e
      | Inr idealSprite \<Rightarrow>
          importSprites rt fileIndex (spriteIndex + 1) imageFiles rest
            (idealSprites @ [idealSprite]))"

text \<open>The outer loop over the documents, from \<open>fileIndex\<close> on.\<close>

fun importFiles ::
    "JsRuntime \<Rightarrow> nat \<Rightarrow> ImageFile list \<Rightarrow> json list \<Rightarrow> IdealSprite list
       \<Rightarrow> ImportError + IdealSprite list" where
  "importFiles rt fileIndex imageFiles [] idealSprites = Inr idealSprites"
| "importFiles rt fileIndex imageFiles (uncheckedFile # rest) idealSprites =
     (case uncheckedFile of
        JArr file \<Rightarrow>
          (case importSprites rt fileIndex 0 imageFiles file idealSprites of
             Inl e \<Rightarrow> Inl e
           | Inr idealSprites' \<Rightarrow> importFiles rt (fileIndex + 1) imageFiles rest idealSprites')
      | _ \<Rightarrow> Inl (NotAnArray uncheckedFile))"

definition importSpriteDotJson ::
    "JsRuntime \<Rightarrow> json list \<Rightarrow> ImageFile list \<Rightarrow> ImportError + Action" where
  "importSpriteDotJson rt jsonObjects imageFiles =
     (case importFiles rt 0 imageFiles jsonObjects [] of
        Inl e \<Rightarrow> Inl e
      | Inr idealSprites \<Rightarrow> Inr (BulkImport idealSprites))"

section \<open>State transitions of the editor\<close>

text \<open>
  Each function below is the updater that the handler of the same name passes to
  \<open>setState\<close>, applied to the previous state. What the handlers read from the
  browser is a parameter: the key of the event, the sprite under the pointer
  (\<open>None\<close> when \<open>getPointerCoords\<close> or \<open>getSelectedSprite\<close> gives \<open>null\<close>), and the
  answer of the rename prompt.
\<close>

definition createSpriteFromImage :: "ImageFile \<Rightarrow> State \<Rightarrow> State" where
  "createSpriteFromImage img prevState =
     prevState\<lparr>st_actions := st_actions prevState @ [Create img], st_redoStack := []\<rparr>"

definition applyWidthPaste :: "Sprite \<Rightarrow> jsnum \<Rightarrow> State \<Rightarrow> State" where
  "applyWidthPaste target w prevState =
     prevState\<lparr>st_actions := st_actions prevState @ [Scale (sp_id target) w],
               st_redoStack := []\<rparr>"

definition applyHeightPaste :: "JsRuntime \<Rightarrow> Sprite \<Rightarrow> jsnum \<Rightarrow> State \<Rightarrow> State" where
  "applyHeightPaste rt target h prevState =
     (let newWidth =
            rt_div rt (rt_mul rt h (im_width (sp_image target))) (im_height (sp_image target))
      in prevState\<lparr>st_actions := st_actions prevState @ [Scale (sp_id target) newWidth],
                   st_redoStack := []\<rparr>)"

definition applyPasteBuffer :: "JsRuntime \<Rightarrow> Sprite \<Rightarrow> State \<Rightarrow> State" where
  "applyPasteBuffer rt target st =
     (case pb_mode (st_pasteBuffer st) of
        NoOp \<Rightarrow> st
      | Width \<Rightarrow> applyWidthPaste target (pb_value (st_pasteBuffer st)) st
      | Height \<Rightarrow> applyHeightPaste rt target (pb_value (st_pasteBuffer st)) st)"

text \<open>\<open>isBlank s\<close> is \<open>/^\s*$/.test(s)\<close> on ASCII white space.\<close>

definition isBlank :: "string \<Rightarrow> bool" where
  "isBlank s =
     list_all (\<lambda>c. c \<in> set [CHR '' '', CHR 0x09, CHR 0x0A, CHR 0x0B, CHR 0x0C, CHR 0x0D]) s"

text \<open>
  The state change of the import, once the uploaded files are parsed: the updater
  of \<open>onJsonFileInputChange\<close>, with the error message that its callback alerts.
\<close>

definition onJsonFileInputChange ::
    "JsRuntime \<Rightarrow> json list \<Rightarrow> State \<Rightarrow> State \<times> ImportError option" where
  "onJsonFileInputChange rt jsonObjects prevState =
     (case importSpriteDotJson rt jsonObjects (st_imageFiles prevState) of
        Inl e \<Rightarrow> (prevState\<lparr>st_isProcessingJsonFile := False\<rparr>, Some e)
      | Inr action \<Rightarrow>
          (prevState\<lparr>st_isProcessingJsonFile := False,
                     st_actions := st_actions prevState @ [action]\<rparr>, None))"

text \<open>
  \<open>onWindowKeyup\<close> gives \<open>None\<close> when the handler does not return: deriving the
  sprites or the meaningful actions runs the search for an unused name.
\<close>

definition onWindowKeyup ::
    "JsRuntime \<Rightarrow> bool \<Rightarrow> string \<Rightarrow> Sprite option \<Rightarrow> string option \<Rightarrow> State \<Rightarrow> State option" where
  "onWindowKeyup rt isWindowDialogOpen key selected promptAnswer st =
     (let k = toLowerCase key;
          pendingTransformation = st_pendingTransformation st
      in
      if isWindowDialogOpen then Some st
      else if (k = ''t'' \<and> (case pendingTransformation of
                               Some (PendingTranslate _ _ _ _ _) \<Rightarrow> True | _ \<Rightarrow> False))
            \<or> (k = ''s'' \<and> (case pendingTransformation of
                               Some (PendingScale _ _ _ _ _) \<Rightarrow> True | _ \<Rightarrow> False))
      then
        (case getSprites rt (st_actions st) None of
           None \<Rightarrow> None
         | Some sprites \<Rightarrow>
             Some (st\<lparr>st_actions :=
                        st_actions st
                        @ [finalizePendingSpriteTransformation rt (the pendingTransformation)
                             sprites],
                      st_redoStack := [],
                      st_pendingTransformation := None\<rparr>))
      else if k = ''z'' \<and> length (st_actions st) > 0 \<and> pendingTransformation = None
      then
        (case getMeaningfulActions rt (st_actions st) of
           None \<Rightarrow> None
         | Some meaningfulPrevStateActions \<Rightarrow>
             Some (st\<lparr>st_actions :=
                        take (length meaningfulPrevStateActions - 1) meaningfulPrevStateActions,
                      st_redoStack :=
                        st_redoStack st
                        @ drop (length meaningfulPrevStateActions - 1)
                            meaningfulPrevStateActions\<rparr>))
      else if k = ''y'' \<and> length (st_redoStack st) > 0 \<and> pendingTransformation = None
      then
        Some (st\<lparr>st_actions :=
                   st_actions st @ drop (length (st_redoStack st) - 1) (st_redoStack st),
                 st_redoStack := take (length (st_redoStack st) - 1) (st_redoStack st)\<rparr>)
      else
      case selected of
        None \<Rightarrow> Some st
      | Some selectedSprite \<Rightarrow>
          if k = ''x'' \<and> pendingTransformation = None
          then Some (st\<lparr>st_actions := st_actions st @ [Delete (sp_id selectedSprite)],
                        st_redoStack := []\<rparr>)
          else if k = ''d'' \<and> pendingTransformation = None
          then Some (st\<lparr>st_actions := st_actions st @ [Duplicate (sp_id selectedSprite)],
                        st_redoStack := []\<rparr>)
          else if k = ''w'' \<and> pendingTransformation = None
          then Some (st\<lparr>st_pasteBuffer :=
                          \<lparr>pb_mode = Width, pb_value = sp_width selectedSprite\<rparr>\<rparr>)
          else if k = ''h'' \<and> pendingTransformation = None
          then Some (st\<lparr>st_pasteBuffer :=
                          \<lparr>pb_mode = Height,
                           pb_value =
                             rt_div rt
                               (rt_mul rt (sp_width selectedSprite)
                                  (im_height (sp_image selectedSprite)))
                               (im_width (sp_image selectedSprite))\<rparr>\<rparr>)
          else if k = ''v'' \<and> pendingTransformation = None
          then Some (applyPasteBuffer rt selectedSprite st)
          else if k = ''u'' \<and> pendingTransformation = None
          then Some (st\<lparr>st_actions :=
                          st_actions st @ [ReorderLayers (sp_id selectedSprite) MoveUp],
                        st_redoStack := []\<rparr>)
          else if k = ''i'' \<and> pendingTransformation = None
          then Some (st\<lparr>st_actions :=
                          st_actions st @ [ReorderLayers (sp_id selectedSprite) MoveToTop],
                        st_redoStack := []\<rparr>)
          else if k = ''j'' \<and> pendingTransformation = None
          then Some (st\<lparr>st_actions :=
                          st_actions st @ [ReorderLayers (sp_id selectedSprite) MoveDown],
                        st_redoStack := []\<rparr>)
          else if k = ''k'' \<and> pendingTransformation = None
          then Some (st\<lparr>st_actions :=
                          st_actions st @ [ReorderLayers (sp_id selectedSprite) MoveToBottom],
                        st_redoStack := []\<rparr>)
          else if k = ''n'' \<and> pendingTransformation = None
          then
            (case promptAnswer of
               None \<Rightarrow> Some st
             | Some newName \<Rightarrow>
                 if isBlank newName then Some st
                 else Some (st\<lparr>st_actions :=
                                 st_actions st @ [Rename (sp_id selectedSprite) newName],
                               st_redoStack := []\<rparr>))
          else Some st)"


section \<open>The arithmetic of the examples\<close>

text \<open>
  \<open>exactRuntime\<close> is the arithmetic that the closed examples of this theory are
  evaluated with. It follows the rules of doubles for the zeros, the infinities
  and \<open>NaN\<close>, and gives the exact result of an operation on finite numbers; a
  double operation gives the same whenever the exact result is a double. Its
  \<open>parseInt\<close> and \<open>String\<close> are those of the natural numbers.
\<close>

text \<open>The sign bit of a number.\<close>

fun signBit :: "jsnum \<Rightarrow> bool" where
  "signBit (Fin r) = (r < 0)"
| "signBit NegZero = True"
| "signBit NegInf = True"
| "signBit PosInf = False"
| "signBit NaN = False"

definition zeroWithSign :: "bool \<Rightarrow> jsnum" where
  "zeroWithSign negative = (if negative then NegZero else Fin 0)"

definition infWithSign :: "bool \<Rightarrow> jsnum" where
  "infWithSign negative = (if negative then NegInf else PosInf)"

definition finiteResult :: "real \<Rightarrow> bool \<Rightarrow> jsnum" where
  "finiteResult r negative = (if r = 0 then zeroWithSign negative else Fin r)"

fun exact_neg :: "jsnum \<Rightarrow> jsnum" where
  "exact_neg (Fin r) = (if r = 0 then NegZero else Fin (- r))"
| "exact_neg NegZero = Fin 0"
| "exact_neg PosInf = NegInf"
| "exact_neg NegInf = PosInf"
| "exact_neg NaN = NaN"

definition exact_add :: "jsnum \<Rightarrow> jsnum \<Rightarrow> jsnum" where
  "exact_add a b =
     (if a = NaN \<or> b = NaN then NaN
      else if isInf a then (if isInf b \<and> a \<noteq> b then NaN else a)
      else if isInf b then b
      else finiteResult (finVal a + finVal b) (a = NegZero \<and> b = NegZero))"

definition exact_sub :: "jsnum \<Rightarrow> jsnum \<Rightarrow> jsnum" where
  "exact_sub a b = exact_add a (exact_neg b)"

definition exact_mul :: "jsnum \<Rightarrow> jsnum \<Rightarrow> jsnum" where
  "exact_mul a b =
     (if a = NaN \<or> b = NaN then NaN
      else if (isInf a \<and> isZero b) \<or> (isZero a \<and> isInf b) then NaN
      else if isInf a \<or> isInf b then infWithSign (signBit a \<noteq> signBit b)
      else finiteResult (finVal a * finVal b) (signBit a \<noteq> signBit b))"

definition exact_div :: "jsnum \<Rightarrow> jsnum \<Rightarrow> jsnum" where
  "exact_div a b =
     (if a = NaN \<or> b = NaN then NaN
      else if (isInf a \<and> isInf b) \<or> (isZero a \<and> isZero b) then NaN
      else if isInf a \<or> isZero b then infWithSign (signBit a \<noteq> signBit b)
      else if isInf b then zeroWithSign (signBit a \<noteq> signBit b)
      else finiteResult (finVal a / finVal b) (signBit a \<noteq> signBit b))"

definition exact_hypot :: "jsnum \<Rightarrow> jsnum \<Rightarrow> jsnum" where
  "exact_hypot a b =
     (if isInf a \<or> isInf b then PosInf
      else if a = NaN \<or> b = NaN then NaN
      else Fin (sqrt (finVal a * finVal a + finVal b * finVal b)))"

definition digitValue :: "char \<Rightarrow> nat" where
  "digitValue c = length (takeWhile (\<lambda>d. d \<noteq> c) ''0123456789'')"

definition digitChar :: "nat \<Rightarrow> char" where
  "digitChar d = ''0123456789'' ! d"

definition exact_parseInt :: "string \<Rightarrow> jsnum" where
  "exact_parseInt ds = Fin (real (foldl (\<lambda>acc c. 10 * acc + digitValue c) 0 ds))"

fun String_of_nat :: "nat \<Rightarrow> string" where
  "String_of_nat n =
     (if n < 10 then [digitChar n] else String_of_nat (n div 10) @ [digitChar (n mod 10)])"

declare String_of_nat.simps [simp del]

fun exact_toString :: "jsnum \<Rightarrow> string" where
  "exact_toString (Fin r) =
     (if r < 0 then ''-'' @ String_of_nat (nat \<lfloor>- r\<rfloor>) else String_of_nat (nat \<lfloor>r\<rfloor>))"
| "exact_toString NegZero = ''0''"
| "exact_toString PosInf = ''Infinity''"
| "exact_toString NegInf = ''-Infinity''"
| "exact_toString NaN = ''NaN''"

definition exactRuntime :: JsRuntime where
  "exactRuntime =
     \<lparr>rt_add = exact_add, rt_sub = exact_sub, rt_mul = exact_mul, rt_div = exact_div,
      rt_hypot = exact_hypot, rt_parseInt = exact_parseInt, rt_toString = exact_toString\<rparr>"

lemma exactRuntime_fields:
  "rt_add exactRuntime = exact_add" "rt_sub exactRuntime = exact_sub"
  "rt_mul exactRuntime = exact_mul" "rt_div exactRuntime = exact_div"
  "rt_hypot exactRuntime = exact_hypot" "rt_parseInt exactRuntime = exact_parseInt"
  "rt_toString exactRuntime = exact_toString"
  by (simp_all add: exactRuntime_def)

lemmas exact_eval =
  exactRuntime_fields exact_add_def exact_sub_def exact_mul_def exact_div_def exact_hypot_def
  exact_parseInt_def finiteResult_def zeroWithSign_def infWithSign_def isInf_def isZero_def
  digitValue_def digitChar_def String_of_nat.simps

section \<open>Examples used by the witnesses\<close>

definition imageA :: ImageFile where
  "imageA =
     \<lparr>im_name = ''a.png'', im_width = Fin 100, im_height = Fin 50, im_sha256 = ''hashOfA'',
      im_ref = 0\<rparr>"

lemma imageA_fields:
  "im_name imageA = ''a.png''" "im_width imageA = Fin 100" "im_height imageA = Fin 50"
  "im_sha256 imageA = ''hashOfA''"
  by (simp_all add: imageA_def)

text \<open>The state that the constructor of \<open>App\<close> installs.\<close>

definition initialState :: State where
  "initialState =
     \<lparr>st_isProcessingImageFile = False,
      st_isProcessingJsonFile = False,
      st_imageFiles = [],
      st_canvasWidthInput = ''1170'',
      st_canvasHeightInput = ''2532'',
      st_canvasScaleInput = ''0.3'',
      st_canvasBackgroundColorInput = ''transparent'',
      st_actions = [],
      st_redoStack = [],
      st_pendingTransformation = None,
      st_isMouseOverCanvas = False,
      st_pasteBuffer = \<lparr>pb_mode = NoOp, pb_value = Fin 0\<rparr>\<rparr>"

lemmas name_eval =
  getUnusedSpriteName_def getUnusedSpriteNameWithMinimumCounter.simps
  firstUnusedCandidate.simps candidateName_def
  matchCounterSuffix_def isDigit_def
  isImageFileName_def toLowerCase_def lowerChar_def startsWith_def lastPathSegment_def
  endsWith_def IMAGE_EXTENSIONS_def stripExtension_def

lemmas check_eval =
  checkSprite_def expectString_def expectFiniteNumber_def expectNonNegativeFiniteNumber_def
  aspectRatioAccepted_def js_ge_def MAX_IMPORT_ASPECT_RATIO_DIFF_def

text \<open>The name search returns the ideal name when no sprite has it, for every runtime.\<close>

lemma getUnusedSpriteName_unused:
  "nm \<notin> set (map sp_name sprites) \<Longrightarrow> getUnusedSpriteName rt nm sprites = Some nm"
  by (simp add: getUnusedSpriteName_def getUnusedSpriteNameWithMinimumCounter.simps)

lemma create_imageA:
  "applySpriteCreation rt imageA [] =
     Some [\<lparr>sp_name = ''a'', sp_id = 0, sp_image = imageA, sp_x = Fin 0, sp_y = Fin 0,
             sp_width = Fin 100\<rparr>]"
  by (simp add: applySpriteCreation_def getUnusedSpriteName_unused getUnusedId_def
        imageA_fields isImageFileName_def toLowerCase_def lowerChar_def startsWith_def
        lastPathSegment_def endsWith_def IMAGE_EXTENSIONS_def stripExtension_def)

section \<open>Uniqueness of ids and names\<close>

text \<open>
  \<open>uniqueSprites\<close> is the invariant of the fold: no two sprites share an id, and
  no two sprites share a name.
\<close>

definition uniqueSprites :: "Sprite list \<Rightarrow> bool" where
  "uniqueSprites sprites = (distinct (map sp_id sprites) \<and> distinct (map sp_name sprites))"

lemma getUnusedId_fresh: "getUnusedId sprites \<notin> set (map sp_id sprites)"
proof (cases "sprites = []")
  case True
  then show ?thesis by simp
next
  case False
  have "n \<le> Max (set (map sp_id sprites))" if "n \<in> set (map sp_id sprites)" for n
    using that by (intro Max_ge) simp_all
  then have "1 + Max (set (map sp_id sprites)) \<notin> set (map sp_id sprites)"
    by fastforce
  with False show ?thesis by (simp add: getUnusedId_def)
qed

text \<open>Whatever the runtime does with the counter, a name that the search returns is unused.\<close>

lemma firstUnusedCandidate_fresh:
  assumes "firstUnusedCandidate rt b names c = Some n"
  shows "n \<notin> set names"
proof (rule firstUnusedCandidate.raw_induct
         [where P = "\<lambda>rt b names c n. n \<notin> set names", OF _ assms])
  fix search rt' b' names' c' n'
  assume IH: "\<And>b names c x y. search b names c x = Some y \<Longrightarrow> y \<notin> set c"
    and step: "(if candidateName rt' b' c' \<notin> set names'
                then Some (candidateName rt' b' c')
                else search rt' b' names' (rt_add rt' c' (Fin 1))) = Some n'"
  show "n' \<notin> set names'"
  proof (cases "candidateName rt' b' c' \<notin> set names'")
    case True
    with step show ?thesis by simp
  next
    case False
    with step have "search rt' b' names' (rt_add rt' c' (Fin 1)) = Some n'" by simp
    then show ?thesis by (rule IH)
  qed
qed

lemma getUnusedSpriteNameWithMinimumCounter_fresh:
  "getUnusedSpriteNameWithMinimumCounter rt idealName sprites c = Some n \<Longrightarrow>
   n \<notin> set (map sp_name sprites)"
proof (induction rt idealName sprites c rule: getUnusedSpriteNameWithMinimumCounter.induct)
  case (1 rt idealName sprites minimumCounter)
  note result = "1.prems"
  show ?case
  proof (cases "idealName \<in> set (map sp_name sprites)")
    case False
    with result show ?thesis
      by (subst (asm) getUnusedSpriteNameWithMinimumCounter.simps) simp
  next
    case True
    show ?thesis
    proof (cases "matchCounterSuffix idealName")
      case None
      with True result
      have "firstUnusedCandidate rt idealName (map sp_name sprites) minimumCounter = Some n"
        by (subst (asm) getUnusedSpriteNameWithMinimumCounter.simps) simp
      then show ?thesis by (rule firstUnusedCandidate_fresh)
    next
      case (Some m)
      with True result
      have "getUnusedSpriteNameWithMinimumCounter rt (fst m) sprites
              (rt_add rt (Fin 1) (rt_parseInt rt (snd m))) = Some n"
        by (subst (asm) getUnusedSpriteNameWithMinimumCounter.simps) simp
      with True Some show ?thesis by (intro "1.IH" [OF refl _ Some]) simp_all
    qed
  qed
qed

lemma getUnusedSpriteName_fresh:
  "getUnusedSpriteName rt idealName sprites = Some n \<Longrightarrow> n \<notin> set (map sp_name sprites)"
  unfolding getUnusedSpriteName_def by (rule getUnusedSpriteNameWithMinimumCounter_fresh)

lemma unique_snoc:
  "uniqueSprites sprites \<Longrightarrow> nm \<notin> set (map sp_name sprites) \<Longrightarrow>
   uniqueSprites (sprites @
     [\<lparr>sp_name = nm, sp_id = getUnusedId sprites,
       sp_image = img, sp_x = px, sp_y = py, sp_width = w\<rparr>])"
  using getUnusedId_fresh [of sprites] by (simp add: uniqueSprites_def)

lemma unique_creation:
  "uniqueSprites sprites \<Longrightarrow> applySpriteCreation rt img sprites = Some out \<Longrightarrow>
   uniqueSprites out"
  by (auto simp: applySpriteCreation_def Let_def split: option.splits
      intro!: unique_snoc dest: getUnusedSpriteName_fresh)

lemma unique_deletion: "uniqueSprites sprites \<Longrightarrow> uniqueSprites (applySpriteDeletion d sprites)"
  by (simp add: applySpriteDeletion_def uniqueSprites_def distinct_map_filter)

lemma unique_duplication:
  "uniqueSprites sprites \<Longrightarrow> applySpriteDuplication rt d sprites = Some out \<Longrightarrow>
   uniqueSprites out"
  by (auto simp: applySpriteDuplication_def split: option.splits
      intro!: unique_snoc dest: getUnusedSpriteName_fresh)

lemma unique_translation:
  "uniqueSprites sprites \<Longrightarrow> uniqueSprites (applySpriteTranslation d nx ny sprites)"
proof -
  have "map sp_id (applySpriteTranslation d nx ny sprites) = map sp_id sprites"
    and "map sp_name (applySpriteTranslation d nx ny sprites) = map sp_name sprites"
    by (simp_all add: applySpriteTranslation_def)
  then show "uniqueSprites sprites \<Longrightarrow> uniqueSprites (applySpriteTranslation d nx ny sprites)"
    by (simp add: uniqueSprites_def)
qed

lemma unique_scaling:
  "uniqueSprites sprites \<Longrightarrow> uniqueSprites (applySpriteScaling rt d w sprites)"
proof -
  have "map sp_id (applySpriteScaling rt d w sprites) = map sp_id sprites"
    and "map sp_name (applySpriteScaling rt d w sprites) = map sp_name sprites"
    by (simp_all add: applySpriteScaling_def Let_def)
  then show "uniqueSprites sprites \<Longrightarrow> uniqueSprites (applySpriteScaling rt d w sprites)"
    by (simp add: uniqueSprites_def)
qed

lemma findIndex_Some:
  "findIndex P xs = Some i \<Longrightarrow> i < length xs \<and> P (xs ! i)"
  by (induction xs arbitrary: i) (auto split: if_splits option.splits)

lemma swap_adjacent_mset:
  assumes "Suc j < length xs"
  shows "mset (take j xs @ [xs ! Suc j, xs ! j] @ drop (Suc (Suc j)) xs) = mset xs"
proof -
  from assms have "xs = take j xs @ xs ! j # xs ! Suc j # drop (Suc (Suc j)) xs"
    by (simp add: Cons_nth_drop_Suc Suc_lessD)
  then have "mset xs = mset (take j xs @ xs ! j # xs ! Suc j # drop (Suc (Suc j)) xs)"
    by simp
  then show ?thesis by simp
qed

lemma remove_nth_mset:
  assumes "i < length xs"
  shows "mset (take i xs) + mset (drop (Suc i) xs) + {#xs ! i#} = mset xs"
proof -
  from assms have "xs = take i xs @ xs ! i # drop (Suc i) xs"
    by (simp add: id_take_nth_drop)
  then have "mset xs = mset (take i xs @ xs ! i # drop (Suc i) xs)" by simp
  then show ?thesis by simp
qed

lemma reordering_mset: "mset (applySpriteLayerReordering d k sprites) = mset sprites"
proof (cases "findIndex (\<lambda>s. sp_id s = d) sprites")
  case None
  then show ?thesis by (simp add: applySpriteLayerReordering_def)
next
  case (Some i)
  then have i: "i < length sprites" by (auto dest: findIndex_Some)
  show ?thesis
  proof (cases k)
    case MoveUp
    show ?thesis
    proof (cases "i = length sprites - 1")
      case True
      with Some MoveUp show ?thesis by (simp add: applySpriteLayerReordering_def)
    next
      case False
      with i have "Suc i < length sprites" by simp
      from swap_adjacent_mset [OF this] Some MoveUp False show ?thesis
        by (simp add: applySpriteLayerReordering_def)
    qed
  next
    case MoveDown
    show ?thesis
    proof (cases "i = 0")
      case True
      with Some MoveDown show ?thesis by (simp add: applySpriteLayerReordering_def)
    next
      case False
      then obtain j where j: "i = Suc j" by (cases i) simp_all
      with i have "Suc j < length sprites" by simp
      from swap_adjacent_mset [OF this] Some MoveDown j show ?thesis
        by (simp add: applySpriteLayerReordering_def add.commute)
    qed
  next
    case MoveToTop
    with Some remove_nth_mset [OF i] show ?thesis
      by (simp add: applySpriteLayerReordering_def)
  next
    case MoveToBottom
    with Some remove_nth_mset [OF i] show ?thesis
      by (simp add: applySpriteLayerReordering_def)
  qed
qed

lemma unique_reordering:
  assumes "uniqueSprites sprites"
  shows "uniqueSprites (applySpriteLayerReordering d k sprites)"
proof -
  have "mset (map sp_id (applySpriteLayerReordering d k sprites)) = mset (map sp_id sprites)"
    by (simp add: reordering_mset)
  then have ids: "distinct (map sp_id (applySpriteLayerReordering d k sprites))
      = distinct (map sp_id sprites)"
    by (rule mset_eq_imp_distinct_iff)
  have "mset (map sp_name (applySpriteLayerReordering d k sprites)) = mset (map sp_name sprites)"
    by (simp add: reordering_mset)
  then have "distinct (map sp_name (applySpriteLayerReordering d k sprites))
      = distinct (map sp_name sprites)"
    by (rule mset_eq_imp_distinct_iff)
  with ids assms show ?thesis by (simp add: uniqueSprites_def)
qed

lemma rename_names_distinct:
  "distinct (map sp_id xs) \<Longrightarrow> distinct (map sp_name xs) \<Longrightarrow> n \<notin> set (map sp_name xs) \<Longrightarrow>
   distinct (map sp_name (map (\<lambda>s. if sp_id s = d then s\<lparr>sp_name := n\<rparr> else s) xs))"
proof (induction xs)
  case Nil
  then show ?case by simp
next
  case (Cons x xs)
  let ?f = "\<lambda>s. if sp_id s = d then s\<lparr>sp_name := n\<rparr> else s"
  from Cons have IH: "distinct (map sp_name (map ?f xs))" by simp
  have names: "set (map sp_name (map ?f xs)) \<subseteq> insert n (set (map sp_name xs))"
    by auto
  show ?case
  proof (cases "sp_id x = d")
    case True
    from Cons.prems(1) have "sp_id x \<notin> sp_id ` set xs" by simp
    with True have "\<forall>s \<in> set xs. sp_id s \<noteq> d" by (metis imageI)
    then have "map ?f xs = xs" by (simp add: map_idI)
    with True Cons.prems show ?thesis by simp
  next
    case False
    from Cons.prems have "sp_name x \<noteq> n" and "sp_name x \<notin> set (map sp_name xs)" by auto
    with names have "sp_name x \<notin> set (map sp_name (map ?f xs))" by blast
    with False IH show ?thesis by simp
  qed
qed

lemma unique_renaming:
  assumes "uniqueSprites sprites" and "applySpriteRenaming rt d nm sprites = Some out"
  shows "uniqueSprites out"
proof -
  from assms(2) obtain newName where
    nm: "getUnusedSpriteName rt nm sprites = Some newName" and
    out: "out = map (\<lambda>s. if sp_id s = d then s\<lparr>sp_name := newName\<rparr> else s) sprites"
    by (auto simp: applySpriteRenaming_def split: option.splits)
  have ids: "map sp_id out = map sp_id sprites"
    by (simp add: out)
  from assms(1) getUnusedSpriteName_fresh [OF nm]
  have "distinct (map sp_name out)"
    unfolding out uniqueSprites_def
    by (intro rename_names_distinct) simp_all
  with ids assms(1) show ?thesis by (simp add: uniqueSprites_def)
qed

lemma unique_bulk_import:
  "uniqueSprites out \<Longrightarrow> applyBulkImport rt idealSprites out = Some res \<Longrightarrow>
   uniqueSprites res"
proof (induction idealSprites arbitrary: out)
  case Nil
  then show ?case by simp
next
  case (Cons i idealSprites)
  from Cons.prems(2) obtain nm where
    nm: "getUnusedSpriteName rt (is_spriteName i) out = Some nm" and
    rest: "applyBulkImport rt idealSprites
             (out @ [\<lparr>sp_name = nm, sp_id = getUnusedId out, sp_image = is_image i,
                      sp_x = is_x i, sp_y = is_y i, sp_width = is_width i\<rparr>]) = Some res"
    by (auto split: option.splits)
  from Cons.prems(1) getUnusedSpriteName_fresh [OF nm]
  have "uniqueSprites (out @ [\<lparr>sp_name = nm, sp_id = getUnusedId out, sp_image = is_image i,
                      sp_x = is_x i, sp_y = is_y i, sp_width = is_width i\<rparr>])"
    by (rule unique_snoc)
  from Cons.IH [OF this rest] show ?case .
qed

lemma unique_applyAction:
  "uniqueSprites sprites \<Longrightarrow> applyAction rt a sprites = Some out \<Longrightarrow> uniqueSprites out"
  by (cases a)
     (auto simp: unique_deletion unique_translation unique_scaling unique_reordering
        dest: unique_creation unique_duplication unique_renaming unique_bulk_import)

lemma unique_foldActions:
  "uniqueSprites sprites \<Longrightarrow> foldActions rt actions sprites = Some out \<Longrightarrow> uniqueSprites out"
proof (induction actions arbitrary: sprites)
  case Nil
  then show ?case by simp
next
  case (Cons a actions)
  from Cons.prems(2) obtain mid where mid: "applyAction rt a sprites = Some mid"
    and rest: "foldActions rt actions mid = Some out"
    by (auto split: option.splits)
  from Cons.prems(1) mid have "uniqueSprites mid" by (rule unique_applyAction)
  from Cons.IH [OF this rest] show ?case .
qed

lemma unique_getSprites:
  assumes "getSprites rt actions pending = Some sprites"
  shows "uniqueSprites sprites"
proof -
  from assms obtain folded where f: "foldActions rt actions [] = Some folded"
    by (auto simp: getSprites_def split: option.splits)
  have "uniqueSprites []" by (simp add: uniqueSprites_def)
  from this f have u: "uniqueSprites folded" by (rule unique_foldActions)
  show ?thesis
  proof (cases pending)
    case None
    with assms f u show ?thesis by (simp add: getSprites_def)
  next
    case (Some t)
    with assms f have "applyAction rt (finalizePendingSpriteTransformation rt t folded) folded
        = Some sprites"
      by (simp add: getSprites_def applyPendingTransformation_def)
    with u show ?thesis by (rule unique_applyAction)
  qed
qed


definition twoSpritesOfA :: "Sprite list" where
  "twoSpritesOfA =
     [\<lparr>sp_name = ''a'', sp_id = 0, sp_image = imageA, sp_x = Fin 0, sp_y = Fin 0,
       sp_width = Fin 100\<rparr>,
      \<lparr>sp_name = ''a (1)'', sp_id = 1, sp_image = imageA, sp_x = Fin 0, sp_y = Fin 0,
       sp_width = Fin 100\<rparr>]"


section \<open>Scaling\<close>

text \<open>
  Claim C4. For every arithmetic of the runtime, applying \<open>Scale spriteId newWidth\<close>
  keeps the length of the sequence; a sprite with that id gets the width
  \<open>newWidth\<close>, its \<open>x\<close> becomes \<open>x - (newWidth - oldWidth) / 2\<close> and its \<open>y\<close> becomes
  \<open>y - (newHeight - oldHeight) / 2\<close> with the heights derived from the widths, and
  its name, id and image stay; every other sprite is unchanged. From the empty log,
  creating a sprite from a 100 by 50 image gives one sprite at (0, 0) of width 100
  and derived height 50, and scaling it to 200 gives width 200, derived height 100
  and the position (-50, -25).
\<close>

theorem scale_recenters:
  "(\<exists>scaled.
      applyAction rt (Scale spriteId newWidth) sprites = Some scaled \<and>
      length scaled = length sprites \<and>
      (\<forall>i < length sprites.
         let old = sprites ! i; new = scaled ! i in
         if sp_id old = spriteId
         then sp_width new = newWidth \<and>
              sp_x new =
                rt_sub rt (sp_x old) (rt_div rt (rt_sub rt newWidth (sp_width old)) (Fin 2)) \<and>
              sp_y new =
                rt_sub rt (sp_y old)
                  (rt_div rt
                     (rt_sub rt (derivedHeight rt newWidth (sp_image old))
                        (derivedHeight rt (sp_width old) (sp_image old)))
                     (Fin 2)) \<and>
              sp_name new = sp_name old \<and> sp_id new = sp_id old \<and>
              sp_image new = sp_image old
         else new = old)) \<and>
   (\<forall>img. im_width img = Fin 100 \<and> im_height img = Fin 50 \<longrightarrow>
      (\<exists>created.
         getSprites exactRuntime [Create img] None = Some [created] \<and>
         sp_x created = Fin 0 \<and> sp_y created = Fin 0 \<and> sp_width created = Fin 100 \<and>
         derivedHeight exactRuntime (sp_width created) (sp_image created) = Fin 50 \<and>
         (\<exists>scaled.
            getSprites exactRuntime [Create img, Scale (sp_id created) (Fin 200)] None
              = Some [scaled] \<and>
            sp_width scaled = Fin 200 \<and>
            derivedHeight exactRuntime (sp_width scaled) (sp_image scaled) = Fin 100 \<and>
            sp_x scaled = Fin (-50) \<and> sp_y scaled = Fin (-25) \<and>
            sp_id scaled = sp_id created \<and> sp_name scaled = sp_name created \<and>
            sp_image scaled = img)))"
proof (rule conjI)
  show "\<exists>scaled.
      applyAction rt (Scale spriteId newWidth) sprites = Some scaled \<and>
      length scaled = length sprites \<and>
      (\<forall>i < length sprites.
         let old = sprites ! i; new = scaled ! i in
         if sp_id old = spriteId
         then sp_width new = newWidth \<and>
              sp_x new =
                rt_sub rt (sp_x old) (rt_div rt (rt_sub rt newWidth (sp_width old)) (Fin 2)) \<and>
              sp_y new =
                rt_sub rt (sp_y old)
                  (rt_div rt
                     (rt_sub rt (derivedHeight rt newWidth (sp_image old))
                        (derivedHeight rt (sp_width old) (sp_image old)))
                     (Fin 2)) \<and>
              sp_name new = sp_name old \<and> sp_id new = sp_id old \<and>
              sp_image new = sp_image old
         else new = old)"
    by (simp add: applySpriteScaling_def derivedHeight_def Let_def)
next
  show "\<forall>img. im_width img = Fin 100 \<and> im_height img = Fin 50 \<longrightarrow>
      (\<exists>created.
         getSprites exactRuntime [Create img] None = Some [created] \<and>
         sp_x created = Fin 0 \<and> sp_y created = Fin 0 \<and> sp_width created = Fin 100 \<and>
         derivedHeight exactRuntime (sp_width created) (sp_image created) = Fin 50 \<and>
         (\<exists>scaled.
            getSprites exactRuntime [Create img, Scale (sp_id created) (Fin 200)] None
              = Some [scaled] \<and>
            sp_width scaled = Fin 200 \<and>
            derivedHeight exactRuntime (sp_width scaled) (sp_image scaled) = Fin 100 \<and>
            sp_x scaled = Fin (-50) \<and> sp_y scaled = Fin (-25) \<and>
            sp_id scaled = sp_id created \<and> sp_name scaled = sp_name created \<and>
            sp_image scaled = img))"
    by (simp add: getSprites_def applySpriteCreation_def getUnusedSpriteName_unused
          applySpriteScaling_def derivedHeight_def Let_def exact_eval)
qed

theorem scale_recenters_witness:
  "im_width imageA = Fin 100 \<and> im_height imageA = Fin 50 \<and>
   (\<exists>scaled.
      getSprites exactRuntime [Create imageA, Scale 0 (Fin 200)] None = Some [scaled] \<and>
      sp_width scaled = Fin 200 \<and> sp_x scaled = Fin (-50) \<and> sp_y scaled = Fin (-25))"
proof -
  have dims: "im_width imageA = Fin 100 \<and> im_height imageA = Fin 50"
    by (simp add: imageA_def)
  note example = scale_recenters [of exactRuntime 0 "Fin 200" "[]", THEN conjunct2,
      rule_format, OF dims]
  then obtain created scaled where
    c: "getSprites exactRuntime [Create imageA] None = Some [created]" and
    s: "getSprites exactRuntime [Create imageA, Scale (sp_id created) (Fin 200)] None
          = Some [scaled]" and
    v: "sp_width scaled = Fin 200" "sp_x scaled = Fin (-50)" "sp_y scaled = Fin (-25)"
    by blast
  from c have "sp_id created = 0"
    by (auto simp: getSprites_def create_imageA)
  with s v dims show ?thesis by simp
qed

text \<open>
  Claim C5. When the current pointer position of a pending scaling equals its
  start position (by \<open>===\<close> on both coordinates), finalisation gives a \<open>Scale\<close>
  action whose new width is the width of the target sprite as it is, whatever the
  width and the position of the sprite and whatever the arithmetic of the runtime:
  no quotient is computed. (Without a sprite of that id the width is 0.)
\<close>

theorem scale_at_rest_exact:
  assumes "js_eq pointerCurrentX pointerStartX" and "js_eq pointerCurrentY pointerStartY"
  shows "finalizePendingSpriteTransformation rt
           (PendingScale spriteId pointerStartX pointerStartY pointerCurrentX pointerCurrentY)
           sprites
         = Scale spriteId
             (case find (\<lambda>s. sp_id s = spriteId) sprites of
                None \<Rightarrow> Fin 0
              | Some target \<Rightarrow> sp_width target)"
  using assms by (simp add: finalizePendingSpriteScaling_def)

theorem scale_at_rest_exact_witness:
  "js_eq (Fin 3) (Fin 3) \<and> js_eq (Fin 4) (Fin 4) \<and>
   finalizePendingSpriteTransformation exactRuntime (PendingScale 0 (Fin 3) (Fin 4) (Fin 3) (Fin 4))
     [\<lparr>sp_name = ''a'', sp_id = 0, sp_image = imageA, sp_x = Fin 0, sp_y = Fin 0,
       sp_width = Fin 100\<rparr>]
     = Scale 0 (Fin 100)"
proof -
  have x: "js_eq (Fin 3) (Fin 3)" and y: "js_eq (Fin 4) (Fin 4)"
    by (simp_all add: js_eq_def)
  from scale_at_rest_exact [OF x y, of exactRuntime 0
      "[\<lparr>sp_name = ''a'', sp_id = 0, sp_image = imageA, sp_x = Fin 0, sp_y = Fin 0,
         sp_width = Fin 100\<rparr>]"] x y
  show ?thesis by simp
qed

section \<open>Meaningful actions, undo and redo\<close>

text \<open>
  A log consists of meaningful actions only when each action, applied to the
  sprites derived from the actions before it, returns and changes them under the
  comparison of the source.
\<close>

fun meaningfulFrom :: "JsRuntime \<Rightarrow> Sprite list \<Rightarrow> Action list \<Rightarrow> bool" where
  "meaningfulFrom rt sprites [] = True"
| "meaningfulFrom rt sprites (action # actions) =
     (case applyAction rt action sprites of
        None \<Rightarrow> False
      | Some newSprites \<Rightarrow>
          \<not> areSpriteArraysEqual sprites newSprites \<and> meaningfulFrom rt newSprites actions)"

lemma meaningfulLoop_keeps_all:
  "meaningfulFrom rt sprites actions \<Longrightarrow>
   meaningfulLoop rt actions sprites out = Some (out @ actions)"
  by (induction actions arbitrary: sprites out) (auto split: option.splits)

lemma getMeaningfulActions_id:
  "meaningfulFrom rt [] actions \<Longrightarrow> getMeaningfulActions rt actions = Some actions"
  by (simp add: getMeaningfulActions_def meaningfulLoop_keeps_all)

definition stateWithSprite :: State where
  "stateWithSprite = createSpriteFromImage imageA initialState"

lemma stateWithSprite_simps:
  "st_actions stateWithSprite = [Create imageA]"
  "st_redoStack stateWithSprite = []"
  "st_pendingTransformation stateWithSprite = None"
  by (simp_all add: stateWithSprite_def createSpriteFromImage_def initialState_def)

lemma meaningful_create_imageA: "meaningfulFrom rt [] [Create imageA]"
  by (simp add: create_imageA areSpriteArraysEqual_def)

text \<open>
  Claim C6. In a state whose action log is not empty and consists of meaningful
  actions only, and whose pending transformation is null, the undo key pops the
  last action of the log onto the redo stack, and the redo key after it gives
  back the state: the action log and the redo stack (and every other field) are
  what they were before the undo.
\<close>

theorem undo_redo_roundtrip:
  assumes "st_actions st \<noteq> []"
    and "meaningfulFrom rt [] (st_actions st)"
    and "st_pendingTransformation st = None"
    and "toLowerCase undoKey = ''z''" and "toLowerCase redoKey = ''y''"
  shows "\<exists>undone.
           onWindowKeyup rt False undoKey selected answer st = Some undone \<and>
           st_actions undone = butlast (st_actions st) \<and>
           st_redoStack undone = st_redoStack st @ [last (st_actions st)] \<and>
           onWindowKeyup rt False redoKey selected' answer' undone = Some st"
proof -
  let ?m = "st_actions st"
  let ?u = "st\<lparr>st_actions := butlast ?m, st_redoStack := st_redoStack st @ [last ?m]\<rparr>"
  have popped: "drop (length ?m - Suc 0) ?m = [last ?m]"
    using assms(1) by (cases ?m rule: rev_cases) simp_all
  have kept: "take (length ?m - Suc 0) ?m = butlast ?m"
    by (simp add: butlast_conv_take)
  have u: "onWindowKeyup rt False undoKey selected answer st = Some ?u"
    using assms by (simp add: onWindowKeyup_def getMeaningfulActions_id Let_def popped kept)
  have restored: "?u\<lparr>st_actions := butlast ?m @ [last ?m], st_redoStack := st_redoStack st\<rparr> = st"
    using assms(1) by simp
  have "onWindowKeyup rt False redoKey selected' answer' ?u =
        Some (?u\<lparr>st_actions := butlast ?m @ [last ?m], st_redoStack := st_redoStack st\<rparr>)"
    using assms(3,5) by (simp add: onWindowKeyup_def Let_def)
  with restored have "onWindowKeyup rt False redoKey selected' answer' ?u = Some st"
    by simp
  with u show ?thesis by simp
qed

theorem undo_redo_roundtrip_witness:
  "st_actions stateWithSprite \<noteq> [] \<and>
   meaningfulFrom exactRuntime [] (st_actions stateWithSprite) \<and>
   st_pendingTransformation stateWithSprite = None \<and>
   (\<exists>undone.
      onWindowKeyup exactRuntime False ''Z'' None None stateWithSprite = Some undone \<and>
      st_actions undone = [] \<and> st_redoStack undone = [Create imageA] \<and>
      onWindowKeyup exactRuntime False ''y'' None None undone = Some stateWithSprite)"
proof -
  have a: "st_actions stateWithSprite \<noteq> []" by (simp add: stateWithSprite_simps)
  have m: "meaningfulFrom exactRuntime [] (st_actions stateWithSprite)"
    unfolding stateWithSprite_simps by (rule meaningful_create_imageA)
  have p: "st_pendingTransformation stateWithSprite = None"
    by (simp add: stateWithSprite_simps)
  have z: "toLowerCase ''Z'' = ''z''" by (simp add: toLowerCase_def lowerChar_def)
  have y: "toLowerCase ''y'' = ''y''" by (simp add: toLowerCase_def lowerChar_def)
  from undo_redo_roundtrip [OF a m p z y, of None None None None] a m p show ?thesis
    by (simp add: stateWithSprite_simps)
qed

section \<open>Idempotence\<close>

definition oneSpriteOfA :: "Sprite list" where
  "oneSpriteOfA =
     [\<lparr>sp_name = ''a'', sp_id = 0, sp_image = imageA, sp_x = Fin 0, sp_y = Fin 0,
       sp_width = Fin 100\<rparr>]"

text \<open>
  Claim C3, as stated, fails: applying \<open>Create\<close> to the empty sequence gives one
  sprite, and applying it again to the result gives two.
\<close>

theorem create_not_idempotent:
  "applyAction exactRuntime (Create imageA) [] = Some oneSpriteOfA \<and>
   applyAction exactRuntime (Create imageA) oneSpriteOfA = Some twoSpritesOfA \<and>
   twoSpritesOfA \<noteq> oneSpriteOfA"
proof -
  have "applyAction exactRuntime (Create imageA) [] = Some oneSpriteOfA"
    by (simp add: create_imageA oneSpriteOfA_def)
  moreover have "applyAction exactRuntime (Create imageA) oneSpriteOfA = Some twoSpritesOfA"
    by (simp add: applySpriteCreation_def name_eval getUnusedId_def imageA_fields exact_eval
          twoSpritesOfA_def oneSpriteOfA_def)
  moreover have "twoSpritesOfA \<noteq> oneSpriteOfA"
    by (simp add: twoSpritesOfA_def oneSpriteOfA_def)
  ultimately show ?thesis by simp
qed

lemma findIndex_snoc_only:
  "\<forall>x \<in> set ys. \<not> P x \<Longrightarrow> P z \<Longrightarrow> findIndex P (ys @ [z]) = Some (length ys)"
  by (induction ys) simp_all

lemma move_to_top_of_last:
  "findIndex (\<lambda>s. sp_id s = d) (others @ [z]) = Some (length others) \<Longrightarrow>
   applySpriteLayerReordering d MoveToTop (others @ [z]) = others @ [z]"
  by (simp add: applySpriteLayerReordering_def Let_def)

lemma move_to_top_idempotent:
  assumes "distinct (map sp_id sprites)"
  shows "applySpriteLayerReordering d MoveToTop (applySpriteLayerReordering d MoveToTop sprites)
         = applySpriteLayerReordering d MoveToTop sprites"
proof (cases "findIndex (\<lambda>s. sp_id s = d) sprites")
  case None
  then show ?thesis by (simp add: applySpriteLayerReordering_def)
next
  case (Some i)
  then have i: "i < length sprites" and d: "sp_id (sprites ! i) = d"
    by (auto dest: findIndex_Some)
  let ?others = "take i sprites @ drop (Suc i) sprites"
  have first: "applySpriteLayerReordering d MoveToTop sprites = ?others @ [sprites ! i]"
    using Some by (simp add: applySpriteLayerReordering_def)
  have "sprites = take i sprites @ sprites ! i # drop (Suc i) sprites"
    using i by (simp add: id_take_nth_drop)
  then have "distinct (map sp_id (take i sprites @ sprites ! i # drop (Suc i) sprites))"
    using assms by simp
  then have "\<forall>x \<in> set ?others. sp_id x \<noteq> sp_id (sprites ! i)"
    by (auto simp: image_iff)
  with d have "findIndex (\<lambda>s. sp_id s = d) (?others @ [sprites ! i]) = Some (length ?others)"
    by (intro findIndex_snoc_only) simp_all
  then have "applySpriteLayerReordering d MoveToTop (?others @ [sprites ! i])
      = ?others @ [sprites ! i]"
    by (rule move_to_top_of_last)
  with first show ?thesis by simp
qed

lemma move_to_bottom_idempotent:
  "applySpriteLayerReordering d MoveToBottom (applySpriteLayerReordering d MoveToBottom sprites)
     = applySpriteLayerReordering d MoveToBottom sprites"
proof (cases "findIndex (\<lambda>s. sp_id s = d) sprites")
  case None
  then show ?thesis by (simp add: applySpriteLayerReordering_def)
next
  case (Some i)
  then have "sp_id (sprites ! i) = d" by (auto dest: findIndex_Some)
  with Some show ?thesis by (simp add: applySpriteLayerReordering_def Let_def)
qed

text \<open>
  \<open>Scale\<close> moves the sprite by half of the difference of the new and the old
  width, and of the new and the old height. A second application subtracts the
  new width from itself and the new height from itself. In double arithmetic the
  difference of a finite number and itself is 0, and that of an infinity or
  \<open>NaN\<close> and itself is \<open>NaN\<close>; \<open>0 / 2\<close> is 0, and \<open>x - 0\<close> is \<open>x\<close> for every
  \<open>x\<close>. \<open>cancels rt a\<close> says that \<open>a - a\<close> is 0, and \<open>zeroLaws rt\<close> states the two
  laws of 0.
\<close>

definition cancels :: "JsRuntime \<Rightarrow> jsnum \<Rightarrow> bool" where
  "cancels rt a = (rt_sub rt a a = Fin 0)"

definition zeroLaws :: "JsRuntime \<Rightarrow> bool" where
  "zeroLaws rt = (rt_div rt (Fin 0) (Fin 2) = Fin 0 \<and> (\<forall>x. rt_sub rt x (Fin 0) = x))"

definition scaleCancels :: "JsRuntime \<Rightarrow> nat \<Rightarrow> jsnum \<Rightarrow> Sprite list \<Rightarrow> bool" where
  "scaleCancels rt spriteId newWidth sprites =
     (cancels rt newWidth \<and>
      list_all (\<lambda>sprite. sp_id sprite \<noteq> spriteId \<or>
                  cancels rt (derivedHeight rt newWidth (sp_image sprite)))
        sprites)"

lemma exactRuntime_zeroLaws: "zeroLaws exactRuntime"
proof -
  have "exact_sub x (Fin 0) = x" for x
    by (cases x) (simp_all add: exact_sub_def exact_add_def finiteResult_def zeroWithSign_def
          isInf_def)
  then show ?thesis
    by (simp add: zeroLaws_def exactRuntime_fields exact_div_def finiteResult_def
          zeroWithSign_def isInf_def isZero_def)
qed

lemma exactRuntime_cancels: "cancels exactRuntime a = numIsFinite a"
  by (cases a) (simp_all add: cancels_def exactRuntime_fields exact_sub_def exact_add_def
        finiteResult_def zeroWithSign_def isInf_def)

lemma scaling_idempotent:
  assumes "zeroLaws rt" and "scaleCancels rt spriteId newWidth sprites"
  shows "applySpriteScaling rt spriteId newWidth (applySpriteScaling rt spriteId newWidth sprites)
         = applySpriteScaling rt spriteId newWidth sprites"
proof -
  have z: "rt_div rt (Fin 0) (Fin 2) = Fin 0" and s: "rt_sub rt x (Fin 0) = x" for x
    using assms(1) by (simp_all add: zeroLaws_def)
  have w: "rt_sub rt newWidth newWidth = Fin 0"
    using assms(2) by (simp add: scaleCancels_def cancels_def)
  have h: "rt_sub rt (rt_div rt (rt_mul rt newWidth (im_height (sp_image sprite)))
                        (im_width (sp_image sprite)))
             (rt_div rt (rt_mul rt newWidth (im_height (sp_image sprite)))
                        (im_width (sp_image sprite))) = Fin 0"
    if "sprite \<in> set sprites" and "sp_id sprite = spriteId" for sprite
    using assms(2) that
    by (auto simp add: scaleCancels_def cancels_def derivedHeight_def list_all_iff)
  show ?thesis
    unfolding applySpriteScaling_def Let_def map_map
    by (rule map_cong [OF refl]) (simp add: z s w h)
qed

text \<open>
  Claim C3, amended. For every sprite sequence, applying \<open>Delete\<close>, \<open>Translate\<close>
  or \<open>ReorderLayers\<close> with \<open>MoveToBottom\<close> twice in a row gives the sequence that
  applying it once gives, with the same value in every field; so does
  \<open>ReorderLayers\<close> with \<open>MoveToTop\<close> on every sprite sequence with pairwise
  distinct ids, hence on every sprite sequence derived from a log; and so does
  \<open>Scale\<close> whenever the new width, and the new height of every sprite with that
  id, subtracted from itself gives 0, as every finite double does.
\<close>

theorem absolute_actions_idempotent:
  "(\<exists>once. applyAction rt (Delete spriteId) sprites = Some once \<and>
           applyAction rt (Delete spriteId) once = Some once) \<and>
   (\<exists>once. applyAction rt (Translate spriteId newX newY) sprites = Some once \<and>
           applyAction rt (Translate spriteId newX newY) once = Some once) \<and>
   (\<exists>once. applyAction rt (ReorderLayers spriteId MoveToBottom) sprites = Some once \<and>
           applyAction rt (ReorderLayers spriteId MoveToBottom) once = Some once) \<and>
   (distinct (map sp_id sprites) \<longrightarrow>
      (\<exists>once. applyAction rt (ReorderLayers spriteId MoveToTop) sprites = Some once \<and>
              applyAction rt (ReorderLayers spriteId MoveToTop) once = Some once)) \<and>
   (getSprites rt actions pending = Some derived \<longrightarrow>
      (\<exists>once. applyAction rt (ReorderLayers spriteId MoveToTop) derived = Some once \<and>
              applyAction rt (ReorderLayers spriteId MoveToTop) once = Some once)) \<and>
   (zeroLaws rt \<and> scaleCancels rt spriteId newWidth sprites \<longrightarrow>
      (\<exists>once. applyAction rt (Scale spriteId newWidth) sprites = Some once \<and>
              applyAction rt (Scale spriteId newWidth) once = Some once))"
proof -
  have del: "\<exists>once. applyAction rt (Delete spriteId) sprites = Some once \<and>
           applyAction rt (Delete spriteId) once = Some once"
    by (simp add: applySpriteDeletion_def)
  have tr: "\<exists>once. applyAction rt (Translate spriteId newX newY) sprites = Some once \<and>
           applyAction rt (Translate spriteId newX newY) once = Some once"
    by (simp add: applySpriteTranslation_def)
  have bot: "\<exists>once. applyAction rt (ReorderLayers spriteId MoveToBottom) sprites = Some once \<and>
           applyAction rt (ReorderLayers spriteId MoveToBottom) once = Some once"
    by (simp add: move_to_bottom_idempotent)
  have top: "\<exists>once. applyAction rt (ReorderLayers spriteId MoveToTop) s = Some once \<and>
              applyAction rt (ReorderLayers spriteId MoveToTop) once = Some once"
    if "distinct (map sp_id s)" for s
    using that by (simp add: move_to_top_idempotent)
  have der: "distinct (map sp_id derived)" if "getSprites rt actions pending = Some derived"
    using unique_getSprites [OF that] by (simp add: uniqueSprites_def)
  have sc: "\<exists>once. applyAction rt (Scale spriteId newWidth) sprites = Some once \<and>
              applyAction rt (Scale spriteId newWidth) once = Some once"
    if "zeroLaws rt" and "scaleCancels rt spriteId newWidth sprites"
    using that by (simp add: scaling_idempotent)
  from del tr bot top der sc show ?thesis by blast
qed

theorem absolute_actions_idempotent_witness:
  "distinct (map sp_id twoSpritesOfA) \<and>
   getSprites exactRuntime [Create imageA, Create imageA] None = Some twoSpritesOfA \<and>
   zeroLaws exactRuntime \<and> scaleCancels exactRuntime 1 (Fin 200) twoSpritesOfA \<and>
   (\<exists>once. applyAction exactRuntime (ReorderLayers 1 MoveToTop) twoSpritesOfA = Some once \<and>
           applyAction exactRuntime (ReorderLayers 1 MoveToTop) once = Some once) \<and>
   (\<exists>once. applyAction exactRuntime (Scale 1 (Fin 200)) twoSpritesOfA = Some once \<and>
           applyAction exactRuntime (Scale 1 (Fin 200)) once = Some once)"
proof -
  have d: "distinct (map sp_id twoSpritesOfA)" by (simp add: twoSpritesOfA_def)
  have g: "getSprites exactRuntime [Create imageA, Create imageA] None = Some twoSpritesOfA"
    by (simp add: getSprites_def applySpriteCreation_def name_eval getUnusedId_def
          imageA_fields exact_eval twoSpritesOfA_def)
  have z: "zeroLaws exactRuntime" by (rule exactRuntime_zeroLaws)
  have c: "scaleCancels exactRuntime 1 (Fin 200) twoSpritesOfA"
    by (simp add: scaleCancels_def exactRuntime_cancels derivedHeight_def twoSpritesOfA_def
          imageA_fields exact_eval)
  from absolute_actions_idempotent
         [of exactRuntime 1 twoSpritesOfA "Fin 0" "Fin 0"
             "[Create imageA, Create imageA]" None twoSpritesOfA "Fin 200"]
       d g z c
  show ?thesis
    by (simp del: applyAction.simps)
qed

section \<open>Stripping the actions without effect\<close>

text \<open>
  \<open>getMeaningfulActions\<close> compares the sprites before and after an action with
  \<open>===\<close> on the numbers. That comparison takes the two zeros for equal, so that an
  action that only changes the sign of a zero is dropped, and it takes \<open>NaN\<close> for
  different from itself, so that once a coordinate is \<open>NaN\<close> every action is
  kept. What the filtered log preserves is the sprites up to the sign of zero:
  \<open>eraseZeroSign\<close> replaces the negative zero by the positive zero in the three
  numbers of a sprite.
\<close>

definition positiveZero :: "jsnum \<Rightarrow> jsnum" where
  "positiveZero a = (if a = NegZero then Fin 0 else a)"

definition eraseZeroSign :: "Sprite \<Rightarrow> Sprite" where
  "eraseZeroSign sprite =
     sprite\<lparr>sp_x := positiveZero (sp_x sprite),
            sp_y := positiveZero (sp_y sprite),
            sp_width := positiveZero (sp_width sprite)\<rparr>"

definition sameNum :: "jsnum \<Rightarrow> jsnum \<Rightarrow> bool" where
  "sameNum a b = (positiveZero a = positiveZero b)"

definition sameSprite :: "Sprite \<Rightarrow> Sprite \<Rightarrow> bool" where
  "sameSprite a b = (eraseZeroSign a = eraseZeroSign b)"

text \<open>
  In the arithmetic of doubles, changing the sign of a zero operand of \<open>a - b\<close>,
  or of a zero first operand of \<open>a * b\<close> or \<open>a / b\<close>, changes at most the sign of
  a zero result. \<open>zeroSignCongruent rt\<close> states this of the runtime.
\<close>

definition zeroSignCongruent :: "JsRuntime \<Rightarrow> bool" where
  "zeroSignCongruent rt =
     ((\<forall>a a' b b'. sameNum a a' \<and> sameNum b b' \<longrightarrow>
          sameNum (rt_sub rt a b) (rt_sub rt a' b')) \<and>
      (\<forall>a a' b. sameNum a a' \<longrightarrow> sameNum (rt_mul rt a b) (rt_mul rt a' b)) \<and>
      (\<forall>a a' b. sameNum a a' \<longrightarrow> sameNum (rt_div rt a b) (rt_div rt a' b)))"

definition hasNoNaN :: "Sprite list \<Rightarrow> bool" where
  "hasNoNaN sprites =
     list_all (\<lambda>sprite. sp_x sprite \<noteq> NaN \<and> sp_y sprite \<noteq> NaN \<and> sp_width sprite \<noteq> NaN)
       sprites"

lemma sameNum_refl: "sameNum a a"
  by (simp add: sameNum_def)

lemma js_eq_sameNum: "js_eq a b \<Longrightarrow> sameNum a b"
  by (auto simp: js_eq_def sameNum_def positiveZero_def isZero_def)

lemma sameNum_js_eq: "sameNum a b \<Longrightarrow> b \<noteq> NaN \<Longrightarrow> js_eq a b"
  by (auto simp: js_eq_def sameNum_def positiveZero_def isZero_def split: if_splits)

lemma sameSprite_iff:
  "sameSprite a b \<longleftrightarrow>
     sp_name a = sp_name b \<and> sp_id a = sp_id b \<and> sp_image a = sp_image b \<and>
     sameNum (sp_x a) (sp_x b) \<and> sameNum (sp_y a) (sp_y b) \<and>
     sameNum (sp_width a) (sp_width b)"
  by (cases a; cases b) (auto simp: sameSprite_def eraseZeroSign_def sameNum_def)

lemma sameSprites_iff:
  "map eraseZeroSign f = map eraseZeroSign F \<longleftrightarrow> list_all2 sameSprite f F"
proof -
  have "map eraseZeroSign f = map eraseZeroSign F
        \<longleftrightarrow> list_all2 (=) (map eraseZeroSign f) (map eraseZeroSign F)"
    by (simp add: list.rel_eq)
  also have "\<dots> \<longleftrightarrow> list_all2 (\<lambda>a b. eraseZeroSign a = eraseZeroSign b) f F"
    by (simp add: list.rel_map)
  finally show ?thesis by (simp add: sameSprite_def [abs_def])
qed

lemma areSpritesEqual_same: "areSpritesEqual a b \<Longrightarrow> sameSprite a b"
  by (simp add: areSpritesEqual_def sameSprite_iff js_eq_sameNum)

lemma areSpriteArraysEqual_same: "areSpriteArraysEqual f g \<Longrightarrow> list_all2 sameSprite f g"
  unfolding areSpriteArraysEqual_def
  by (auto elim!: list_all2_mono intro: areSpritesEqual_same)

lemma same_areSpriteArraysEqual:
  "list_all2 sameSprite f F \<Longrightarrow> hasNoNaN F \<Longrightarrow> areSpriteArraysEqual f F"
proof (induction rule: list_all2_induct)
  case Nil
  show ?case by (simp add: areSpriteArraysEqual_def)
next
  case (Cons a f A F)
  then show ?case
    by (simp add: areSpriteArraysEqual_def areSpritesEqual_def hasNoNaN_def sameSprite_iff
          sameNum_js_eq)
qed

lemma same_trans:
  "list_all2 sameSprite f g \<Longrightarrow> list_all2 sameSprite g h \<Longrightarrow> list_all2 sameSprite f h"
  by (simp add: sameSprites_iff [symmetric])

lemma same_names: "list_all2 sameSprite f F \<Longrightarrow> map sp_name f = map sp_name F"
  by (induction rule: list_all2_induct) (simp_all add: sameSprite_iff)

lemma same_ids: "list_all2 sameSprite f F \<Longrightarrow> map sp_id f = map sp_id F"
  by (induction rule: list_all2_induct) (simp_all add: sameSprite_iff)

lemma same_getUnusedId: "list_all2 sameSprite f F \<Longrightarrow> getUnusedId f = getUnusedId F"
proof -
  assume s: "list_all2 sameSprite f F"
  then have "length f = length F" by (rule list_all2_lengthD)
  with same_ids [OF s] show ?thesis by (simp add: getUnusedId_def)
qed

lemma nameSearch_cong:
  "map sp_name f = map sp_name F \<Longrightarrow>
   getUnusedSpriteNameWithMinimumCounter rt nm f c
     = getUnusedSpriteNameWithMinimumCounter rt nm F c"
proof (induction rt nm f c rule: getUnusedSpriteNameWithMinimumCounter.induct)
  case (1 rt idealName sprites minimumCounter)
  note names = "1.prems"
  show ?case
  proof (cases "idealName \<in> set (map sp_name sprites)")
    case False
    with names show ?thesis
      by (simp add: getUnusedSpriteNameWithMinimumCounter.simps [of rt idealName])
  next
    case True
    show ?thesis
    proof (cases "matchCounterSuffix idealName")
      case None
      with True names show ?thesis
        by (simp add: getUnusedSpriteNameWithMinimumCounter.simps [of rt idealName])
    next
      case (Some m)
      from True Some names
      have "getUnusedSpriteNameWithMinimumCounter rt (fst m) sprites
              (rt_add rt (Fin 1) (rt_parseInt rt (snd m)))
            = getUnusedSpriteNameWithMinimumCounter rt (fst m) F
              (rt_add rt (Fin 1) (rt_parseInt rt (snd m)))"
        by (intro "1.IH" [OF refl _ Some]) simp_all
      with True Some names show ?thesis
        by (simp add: getUnusedSpriteNameWithMinimumCounter.simps [of rt idealName])
    qed
  qed
qed

lemma same_getUnusedSpriteName:
  "list_all2 sameSprite f F \<Longrightarrow> getUnusedSpriteName rt nm f = getUnusedSpriteName rt nm F"
  unfolding getUnusedSpriteName_def by (rule nameSearch_cong) (rule same_names)

lemma same_snoc:
  "list_all2 sameSprite f F \<Longrightarrow> sameSprite a A \<Longrightarrow> list_all2 sameSprite (f @ [a]) (F @ [A])"
  by (simp add: list_all2_appendI)

lemma same_creation:
  assumes "list_all2 sameSprite f F" and "applySpriteCreation rt img F = Some F'"
  shows "\<exists>f'. applySpriteCreation rt img f = Some f' \<and> list_all2 sameSprite f' F'"
proof -
  define idealName where
    "idealName = (if isImageFileName (im_name img) then stripExtension (im_name img)
                  else im_name img)"
  have unfolded: "applySpriteCreation rt img s =
      (case getUnusedSpriteName rt idealName s of
         None \<Rightarrow> None
       | Some unusedName \<Rightarrow>
           Some (s @ [\<lparr>sp_name = unusedName, sp_id = getUnusedId s, sp_image = img,
                        sp_x = Fin 0, sp_y = Fin 0, sp_width = im_width img\<rparr>]))" for s
    by (simp add: applySpriteCreation_def Let_def idealName_def)
  from assms(2) obtain unusedName
    where search: "getUnusedSpriteName rt idealName F = Some unusedName"
      and F': "F' = F @ [\<lparr>sp_name = unusedName, sp_id = getUnusedId F, sp_image = img,
                          sp_x = Fin 0, sp_y = Fin 0, sp_width = im_width img\<rparr>]"
    unfolding unfolded by (auto split: option.splits)
  from search same_getUnusedSpriteName [OF assms(1), of rt idealName]
  have search': "getUnusedSpriteName rt idealName f = Some unusedName"
    by simp
  have "list_all2 sameSprite
          (f @ [\<lparr>sp_name = unusedName, sp_id = getUnusedId f, sp_image = img,
                 sp_x = Fin 0, sp_y = Fin 0, sp_width = im_width img\<rparr>]) F'"
    unfolding F' using assms(1) same_getUnusedId [OF assms(1)]
    by (intro same_snoc) (simp_all add: sameSprite_iff sameNum_refl)
  with search' show ?thesis unfolding unfolded by simp
qed

lemma same_deletion:
  "list_all2 sameSprite f F \<Longrightarrow>
   list_all2 sameSprite (applySpriteDeletion d f) (applySpriteDeletion d F)"
  unfolding applySpriteDeletion_def
  by (induction rule: list_all2_induct) (auto simp: sameSprite_iff)

lemma same_find:
  "list_all2 sameSprite f F \<Longrightarrow>
   rel_option sameSprite (find (\<lambda>s. sp_id s = d) f) (find (\<lambda>s. sp_id s = d) F)"
  by (induction rule: list_all2_induct) (auto simp: sameSprite_iff)

lemma same_duplication:
  assumes "list_all2 sameSprite f F" and "applySpriteDuplication rt d F = Some F'"
  shows "\<exists>f'. applySpriteDuplication rt d f = Some f' \<and> list_all2 sameSprite f' F'"
proof (cases "find (\<lambda>s. sp_id s = d) F")
  case None
  with same_find [OF assms(1), of d] have "find (\<lambda>s. sp_id s = d) f = None"
    by (cases "find (\<lambda>s. sp_id s = d) f") simp_all
  with None assms show ?thesis by (simp add: applySpriteDuplication_def)
next
  case (Some original)
  with same_find [OF assms(1), of d] obtain original'
    where found: "find (\<lambda>s. sp_id s = d) f = Some original'"
      and same: "sameSprite original' original"
    by (cases "find (\<lambda>s. sp_id s = d) f") simp_all
  from same have nm: "sp_name original' = sp_name original"
    by (simp add: sameSprite_iff)
  from assms(2) Some obtain unusedName
    where search: "getUnusedSpriteName rt (sp_name original) F = Some unusedName"
    by (auto simp: applySpriteDuplication_def split: option.splits)
  with same_getUnusedSpriteName [OF assms(1), of rt "sp_name original"]
  have search': "getUnusedSpriteName rt (sp_name original') f = Some unusedName"
    by (simp add: nm)
  from assms Some found search search' same same_getUnusedId [OF assms(1)] show ?thesis
    by (auto simp: applySpriteDuplication_def sameSprite_iff intro!: same_snoc)
qed

lemma same_translation:
  "list_all2 sameSprite f F \<Longrightarrow>
   list_all2 sameSprite (applySpriteTranslation d nx ny f) (applySpriteTranslation d nx ny F)"
  unfolding applySpriteTranslation_def
  by (induction rule: list_all2_induct) (auto simp: sameSprite_iff sameNum_refl)

lemma same_scaled_sprite:
  assumes "zeroSignCongruent rt" and "sameSprite a A"
  shows "sameSprite
     (a\<lparr>sp_x := rt_sub rt (sp_x a) (rt_div rt (rt_sub rt w (sp_width a)) (Fin 2)),
        sp_y := rt_sub rt (sp_y a)
                  (rt_div rt
                     (rt_sub rt
                        (rt_div rt (rt_mul rt w (im_height (sp_image a))) (im_width (sp_image a)))
                        (rt_div rt (rt_mul rt (sp_width a) (im_height (sp_image a)))
                           (im_width (sp_image a))))
                     (Fin 2)),
        sp_width := w\<rparr>)
     (A\<lparr>sp_x := rt_sub rt (sp_x A) (rt_div rt (rt_sub rt w (sp_width A)) (Fin 2)),
        sp_y := rt_sub rt (sp_y A)
                  (rt_div rt
                     (rt_sub rt
                        (rt_div rt (rt_mul rt w (im_height (sp_image A))) (im_width (sp_image A)))
                        (rt_div rt (rt_mul rt (sp_width A) (im_height (sp_image A)))
                           (im_width (sp_image A))))
                     (Fin 2)),
        sp_width := w\<rparr>)"
proof -
  have sub: "sameNum (rt_sub rt p q) (rt_sub rt p' q')" if "sameNum p p'" and "sameNum q q'"
    for p p' q q'
    using assms(1) that by (simp add: zeroSignCongruent_def)
  have mul: "sameNum (rt_mul rt p q) (rt_mul rt p' q)" if "sameNum p p'" for p p' q
    using assms(1) that by (simp add: zeroSignCongruent_def)
  have div: "sameNum (rt_div rt p q) (rt_div rt p' q)" if "sameNum p p'" for p p' q
    using assms(1) that by (simp add: zeroSignCongruent_def)
  from assms(2) have img: "sp_image a = sp_image A"
    and x: "sameNum (sp_x a) (sp_x A)" and y: "sameNum (sp_y a) (sp_y A)"
    and wd: "sameNum (sp_width a) (sp_width A)"
    and rest: "sp_name a = sp_name A" "sp_id a = sp_id A"
    by (simp_all add: sameSprite_iff)
  have nx: "sameNum (rt_sub rt (sp_x a) (rt_div rt (rt_sub rt w (sp_width a)) (Fin 2)))
                    (rt_sub rt (sp_x A) (rt_div rt (rt_sub rt w (sp_width A)) (Fin 2)))"
    by (intro sub div x wd sameNum_refl)
  have oldHeight:
    "sameNum (rt_div rt (rt_mul rt (sp_width a) (im_height (sp_image A))) (im_width (sp_image A)))
             (rt_div rt (rt_mul rt (sp_width A) (im_height (sp_image A))) (im_width (sp_image A)))"
    by (intro div mul wd)
  have ny: "sameNum
       (rt_sub rt (sp_y a)
          (rt_div rt
             (rt_sub rt
                (rt_div rt (rt_mul rt w (im_height (sp_image A))) (im_width (sp_image A)))
                (rt_div rt (rt_mul rt (sp_width a) (im_height (sp_image A)))
                   (im_width (sp_image A))))
             (Fin 2)))
       (rt_sub rt (sp_y A)
          (rt_div rt
             (rt_sub rt
                (rt_div rt (rt_mul rt w (im_height (sp_image A))) (im_width (sp_image A)))
                (rt_div rt (rt_mul rt (sp_width A) (im_height (sp_image A)))
                   (im_width (sp_image A))))
             (Fin 2)))"
    by (intro sub div y oldHeight sameNum_refl)
  from nx ny rest show ?thesis
    by (simp add: sameSprite_iff img sameNum_refl)
qed

lemma same_scaling_single:
  assumes "zeroSignCongruent rt" and "sameSprite a A"
  shows "list_all2 sameSprite (applySpriteScaling rt d w [a]) (applySpriteScaling rt d w [A])"
proof -
  from assms(2) have ids: "sp_id a = sp_id A" by (simp add: sameSprite_iff)
  show ?thesis
  proof (cases "sp_id A = d")
    case True
    with ids same_scaled_sprite [OF assms, of w] show ?thesis
      by (simp add: applySpriteScaling_def Let_def)
  next
    case False
    with ids assms(2) show ?thesis
      by (simp add: applySpriteScaling_def Let_def)
  qed
qed

lemma same_scaling:
  assumes "zeroSignCongruent rt"
  shows "list_all2 sameSprite f F \<Longrightarrow>
         list_all2 sameSprite (applySpriteScaling rt d w f) (applySpriteScaling rt d w F)"
proof (induction rule: list_all2_induct)
  case Nil
  show ?case by (simp add: applySpriteScaling_def)
next
  case (Cons a f A F)
  have "list_all2 sameSprite
          (applySpriteScaling rt d w [a] @ applySpriteScaling rt d w f)
          (applySpriteScaling rt d w [A] @ applySpriteScaling rt d w F)"
    using same_scaling_single [OF assms Cons.hyps(1)] Cons.IH by (rule list_all2_appendI)
  moreover have "applySpriteScaling rt d w (a # f)
      = applySpriteScaling rt d w [a] @ applySpriteScaling rt d w f"
    by (simp add: applySpriteScaling_def)
  moreover have "applySpriteScaling rt d w (A # F)
      = applySpriteScaling rt d w [A] @ applySpriteScaling rt d w F"
    by (simp add: applySpriteScaling_def)
  ultimately show ?case by (simp only:)
qed

lemma same_findIndex:
  "list_all2 sameSprite f F \<Longrightarrow>
   findIndex (\<lambda>s. sp_id s = d) f = findIndex (\<lambda>s. sp_id s = d) F"
  by (induction rule: list_all2_induct) (auto simp: sameSprite_iff)

lemma same_reordering:
  assumes "list_all2 sameSprite f F"
  shows "list_all2 sameSprite (applySpriteLayerReordering d k f)
           (applySpriteLayerReordering d k F)"
proof (cases "findIndex (\<lambda>s. sp_id s = d) F")
  case None
  with assms same_findIndex [OF assms, of d] show ?thesis
    by (simp add: applySpriteLayerReordering_def)
next
  case (Some i)
  then have i: "i < length F" by (auto dest: findIndex_Some)
  have len: "length f = length F" using assms by (rule list_all2_lengthD)
  have nth: "sameSprite (f ! j) (F ! j)" if "j < length F" for j
    using assms that len by (simp add: list_all2_nthD)
  have tk: "list_all2 sameSprite (take j f) (take j F)" for j
    using assms by (rule list_all2_takeI)
  have dr: "list_all2 sameSprite (drop j f) (drop j F)" for j
    using assms by (rule list_all2_dropI)
  have fi: "findIndex (\<lambda>s. sp_id s = d) f = Some i"
    using same_findIndex [OF assms, of d] Some by simp
  show ?thesis
  proof (cases k)
    case MoveUp
    show ?thesis
    proof (cases "i = length F - 1")
      case True
      with MoveUp Some fi len assms show ?thesis
        by (simp add: applySpriteLayerReordering_def Let_def)
    next
      case False
      with i have "i + 1 < length F" by simp
      with False MoveUp Some fi len i nth [of i] nth [of "i + 1"] tk [of i] dr [of "i + 2"]
      show ?thesis
        by (simp add: applySpriteLayerReordering_def Let_def list_all2_appendI)
    qed
  next
    case MoveDown
    show ?thesis
    proof (cases "i = 0")
      case True
      with MoveDown Some fi assms show ?thesis
        by (simp add: applySpriteLayerReordering_def Let_def)
    next
      case False
      with i have "i - 1 < length F" by simp
      with False MoveDown Some fi len i nth [of i] nth [of "i - 1"] tk [of "i - 1"]
        dr [of "i + 1"]
      show ?thesis
        by (simp add: applySpriteLayerReordering_def Let_def list_all2_appendI)
    qed
  next
    case MoveToTop
    with Some fi i nth [of i] tk [of i] dr [of "i + 1"] show ?thesis
      by (simp add: applySpriteLayerReordering_def Let_def list_all2_appendI)
  next
    case MoveToBottom
    with Some fi i nth [of i] tk [of i] dr [of "i + 1"] show ?thesis
      by (simp add: applySpriteLayerReordering_def Let_def list_all2_appendI)
  qed
qed

lemma same_renamed:
  "list_all2 sameSprite f F \<Longrightarrow>
   list_all2 sameSprite
     (map (\<lambda>sprite. if sp_id sprite = d then sprite\<lparr>sp_name := nm\<rparr> else sprite) f)
     (map (\<lambda>sprite. if sp_id sprite = d then sprite\<lparr>sp_name := nm\<rparr> else sprite) F)"
  by (induction rule: list_all2_induct) (auto simp: sameSprite_iff)

lemma same_renaming:
  assumes "list_all2 sameSprite f F" and "applySpriteRenaming rt d nm F = Some F'"
  shows "\<exists>f'. applySpriteRenaming rt d nm f = Some f' \<and> list_all2 sameSprite f' F'"
  using assms same_getUnusedSpriteName [OF assms(1), of rt nm]
  by (auto simp: applySpriteRenaming_def split: option.splits intro!: same_renamed)

lemma same_bulk_import:
  "list_all2 sameSprite f F \<Longrightarrow> applyBulkImport rt ideals F = Some F' \<Longrightarrow>
   \<exists>f'. applyBulkImport rt ideals f = Some f' \<and> list_all2 sameSprite f' F'"
proof (induction ideals arbitrary: f F)
  case Nil
  then show ?case by simp
next
  case (Cons ideal ideals)
  from Cons.prems(2) obtain spriteName
    where search: "getUnusedSpriteName rt (is_spriteName ideal) F = Some spriteName"
      and rest: "applyBulkImport rt ideals
            (F @ [\<lparr>sp_name = spriteName, sp_id = getUnusedId F, sp_image = is_image ideal,
                   sp_x = is_x ideal, sp_y = is_y ideal, sp_width = is_width ideal\<rparr>]) = Some F'"
    by (auto split: option.splits)
  from search same_getUnusedSpriteName [OF Cons.prems(1), of rt "is_spriteName ideal"]
  have search': "getUnusedSpriteName rt (is_spriteName ideal) f = Some spriteName"
    by simp
  have "list_all2 sameSprite
          (f @ [\<lparr>sp_name = spriteName, sp_id = getUnusedId f, sp_image = is_image ideal,
                 sp_x = is_x ideal, sp_y = is_y ideal, sp_width = is_width ideal\<rparr>])
          (F @ [\<lparr>sp_name = spriteName, sp_id = getUnusedId F, sp_image = is_image ideal,
                 sp_x = is_x ideal, sp_y = is_y ideal, sp_width = is_width ideal\<rparr>])"
  proof (rule same_snoc [OF Cons.prems(1)])
    show "sameSprite
        \<lparr>sp_name = spriteName, sp_id = getUnusedId f, sp_image = is_image ideal,
           sp_x = is_x ideal, sp_y = is_y ideal, sp_width = is_width ideal\<rparr>
        \<lparr>sp_name = spriteName, sp_id = getUnusedId F, sp_image = is_image ideal,
           sp_x = is_x ideal, sp_y = is_y ideal, sp_width = is_width ideal\<rparr>"
      using same_getUnusedId [OF Cons.prems(1)] by (simp add: sameSprite_iff sameNum_refl)
  qed
  from Cons.IH [OF this rest] search' show ?case by simp
qed

lemma same_applyAction:
  assumes "zeroSignCongruent rt" and "list_all2 sameSprite f F"
    and "applyAction rt a F = Some F'"
  shows "\<exists>f'. applyAction rt a f = Some f' \<and> list_all2 sameSprite f' F'"
proof (cases a)
  case (Create img)
  with assms show ?thesis by (simp add: same_creation)
next
  case (Delete d)
  with assms show ?thesis by (auto simp: same_deletion)
next
  case (Duplicate d)
  with assms show ?thesis by (simp add: same_duplication)
next
  case (Translate d nx ny)
  with assms show ?thesis by (auto simp: same_translation)
next
  case (Scale d w)
  with assms show ?thesis by (auto simp: same_scaling)
next
  case (ReorderLayers d k)
  with assms show ?thesis by (auto simp: same_reordering)
next
  case (Rename d nm)
  with assms show ?thesis by (simp add: same_renaming)
next
  case (BulkImport ideals)
  with assms show ?thesis by (simp add: same_bulk_import)
qed

lemma foldActions_snoc:
  "foldActions rt (out @ [a]) s =
     (case foldActions rt out s of None \<Rightarrow> None | Some t \<Rightarrow> applyAction rt a t)"
  by (induction out arbitrary: s) (auto split: option.splits)

text \<open>
  The invariant of the loop of \<open>getMeaningfulActions\<close>: the kept actions fold to
  the variable \<open>sprites\<close>, which is the fold of all the actions seen so far up to
  the sign of zero.
\<close>

lemma meaningfulLoop_same:
  assumes "zeroSignCongruent rt"
  shows "list_all2 sameSprite f F \<Longrightarrow> foldActions rt out [] = Some f \<Longrightarrow>
         foldActions rt actions F = Some full \<Longrightarrow>
         \<exists>kept sprites. meaningfulLoop rt actions f out = Some kept \<and>
            foldActions rt kept [] = Some sprites \<and> list_all2 sameSprite sprites full"
proof (induction actions arbitrary: f F out)
  case Nil
  then show ?case by simp
next
  case (Cons a actions)
  from Cons.prems(3) obtain F' where F': "applyAction rt a F = Some F'"
    and rest: "foldActions rt actions F' = Some full"
    by (auto split: option.splits)
  from same_applyAction [OF assms Cons.prems(1) F'] obtain f'
    where f': "applyAction rt a f = Some f'" and same': "list_all2 sameSprite f' F'"
    by blast
  show ?case
  proof (cases "areSpriteArraysEqual f f'")
    case True
    then have "list_all2 sameSprite f f'" by (rule areSpriteArraysEqual_same)
    then have "list_all2 sameSprite f F'" using same' by (rule same_trans)
    from Cons.IH [OF this Cons.prems(2) rest] f' True show ?thesis by simp
  next
    case False
    have "foldActions rt (out @ [a]) [] = Some f'"
      using Cons.prems(2) f' by (simp add: foldActions_snoc)
    from Cons.IH [OF same' this rest] f' False show ?thesis by simp
  qed
qed

lemma exact_sub_cong_left:
  "sameNum a a' \<Longrightarrow> sameNum (exact_sub a b) (exact_sub a' b)"
  by (cases a; cases a'; cases b)
     (auto simp: sameNum_def positiveZero_def exact_sub_def exact_add_def finiteResult_def
        zeroWithSign_def isInf_def split: if_splits)

lemma exact_sub_cong_right:
  "sameNum b b' \<Longrightarrow> sameNum (exact_sub a b) (exact_sub a b')"
  by (cases a; cases b; cases b')
     (auto simp: sameNum_def positiveZero_def exact_sub_def exact_add_def finiteResult_def
        zeroWithSign_def isInf_def split: if_splits)

lemma exact_mul_cong_left:
  "sameNum a a' \<Longrightarrow> sameNum (exact_mul a b) (exact_mul a' b)"
  by (cases a; cases a'; cases b)
     (auto simp: sameNum_def positiveZero_def exact_mul_def finiteResult_def
        zeroWithSign_def infWithSign_def isInf_def isZero_def split: if_splits)

lemma exact_div_cong_left:
  "sameNum a a' \<Longrightarrow> sameNum (exact_div a b) (exact_div a' b)"
  by (cases a; cases a'; cases b)
     (auto simp: sameNum_def positiveZero_def exact_div_def finiteResult_def
        zeroWithSign_def infWithSign_def isInf_def isZero_def split: if_splits)

lemma exactRuntime_zeroSignCongruent: "zeroSignCongruent exactRuntime"
proof -
  have "sameNum (exact_sub a b) (exact_sub a' b')" if "sameNum a a'" and "sameNum b b'"
    for a a' b b'
  proof -
    have "sameNum (exact_sub a b) (exact_sub a' b)"
      using that(1) by (rule exact_sub_cong_left)
    moreover have "sameNum (exact_sub a' b) (exact_sub a' b')"
      using that(2) by (rule exact_sub_cong_right)
    ultimately show ?thesis by (simp add: sameNum_def)
  qed
  then show ?thesis
    by (simp add: zeroSignCongruent_def exactRuntime_fields exact_mul_cong_left
          exact_div_cong_left)
qed


definition nanLog :: "Action list" where
  "nanLog = [Create imageA, Scale 0 PosInf, Scale 0 PosInf]"

definition nanSprites :: "Sprite list" where
  "nanSprites =
     [\<lparr>sp_name = ''a'', sp_id = 0, sp_image = imageA, sp_x = NaN, sp_y = NaN,
       sp_width = PosInf\<rparr>]"

lemma create_then_scale_infinite:
  "applyAction exactRuntime (Scale 0 PosInf) oneSpriteOfA =
     Some [\<lparr>sp_name = ''a'', sp_id = 0, sp_image = imageA, sp_x = NegInf, sp_y = NegInf,
             sp_width = PosInf\<rparr>]"
  by (simp add: oneSpriteOfA_def applySpriteScaling_def Let_def imageA_fields exact_eval)

lemma scale_infinite_again:
  "applyAction exactRuntime (Scale 0 PosInf)
     [\<lparr>sp_name = ''a'', sp_id = 0, sp_image = imageA, sp_x = NegInf, sp_y = NegInf,
       sp_width = PosInf\<rparr>] = Some nanSprites"
  by (simp add: nanSprites_def applySpriteScaling_def Let_def imageA_fields exact_eval)

text \<open>
  Claim C10, as stated, fails. \<open>Scale\<close> to an infinite width puts the sprite at
  \<open>-Infinity\<close>, and a second one at \<open>NaN\<close>. All three actions of the log are kept,
  so the filtered log is the log and folds to the same sprites; but compared
  field by field as \<open>areSpritesEqual\<close> compares, these sprites are not equal to
  themselves.
\<close>

theorem meaningful_actions_nan_not_equal:
  "getMeaningfulActions exactRuntime nanLog = Some nanLog \<and>
   getSprites exactRuntime nanLog None = Some nanSprites \<and>
   \<not> areSpriteArraysEqual nanSprites nanSprites"
proof -
  have c: "applyAction exactRuntime (Create imageA) [] = Some oneSpriteOfA"
    by (simp add: create_imageA oneSpriteOfA_def)
  have "getSprites exactRuntime nanLog None = Some nanSprites"
    using c create_then_scale_infinite scale_infinite_again
    by (simp add: getSprites_def nanLog_def del: applyAction.simps)
  moreover have "getMeaningfulActions exactRuntime nanLog = Some nanLog"
    using c create_then_scale_infinite scale_infinite_again
    by (simp add: getMeaningfulActions_def nanLog_def areSpriteArraysEqual_def
          areSpritesEqual_def js_eq_def isZero_def oneSpriteOfA_def nanSprites_def
          del: applyAction.simps)
  moreover have "\<not> areSpriteArraysEqual nanSprites nanSprites"
    by (simp add: areSpriteArraysEqual_def areSpritesEqual_def js_eq_def nanSprites_def)
  ultimately show ?thesis by simp
qed

text \<open>
  The sign of a zero is not preserved either: \<open>Translate\<close> to \<open>(-0, 0)\<close> of a sprite
  at \<open>(0, 0)\<close> is dropped, since \<open>-0 === 0\<close>, and the full log leaves the sprite at
  \<open>-0\<close>.
\<close>

lemma meaningful_actions_drop_zero_sign:
  "getMeaningfulActions exactRuntime [Create imageA, Translate 0 NegZero (Fin 0)]
     = Some [Create imageA] \<and>
   getSprites exactRuntime [Create imageA] None = Some oneSpriteOfA \<and>
   getSprites exactRuntime [Create imageA, Translate 0 NegZero (Fin 0)] None
     = Some [\<lparr>sp_name = ''a'', sp_id = 0, sp_image = imageA, sp_x = NegZero, sp_y = Fin 0,
               sp_width = Fin 100\<rparr>]"
  by (simp add: getMeaningfulActions_def getSprites_def create_imageA oneSpriteOfA_def
        applySpriteTranslation_def areSpriteArraysEqual_def areSpritesEqual_def js_eq_def
        isZero_def)

text \<open>
  Claim C10, amended. For every action list whose fold returns, in an arithmetic
  where the sign of a zero operand changes at most the sign of a zero result,
  \<open>getMeaningfulActions\<close> returns, and folding its result from the empty sprite
  sequence gives the sprites of the full log up to the sign of zero: the same
  names, ids and images in the same order, and the same \<open>x\<close>, \<open>y\<close> and \<open>width\<close>
  once every negative zero is replaced by the positive zero. When no \<open>x\<close>, \<open>y\<close>
  or \<open>width\<close> of the sprites of the full log is \<open>NaN\<close>, the two sprite sequences
  are equal as \<open>areSpriteArraysEqual\<close> compares them.
\<close>

theorem meaningful_actions_same_sprites:
  assumes "zeroSignCongruent rt" and "getSprites rt actions None = Some full"
  shows "\<exists>kept sprites.
           getMeaningfulActions rt actions = Some kept \<and>
           getSprites rt kept None = Some sprites \<and>
           map eraseZeroSign sprites = map eraseZeroSign full \<and>
           (hasNoNaN full \<longrightarrow> areSpriteArraysEqual sprites full)"
proof -
  from assms(2) have full: "foldActions rt actions [] = Some full"
    by (simp add: getSprites_def split: option.splits)
  have "list_all2 sameSprite [] []" and "foldActions rt [] [] = Some []"
    by simp_all
  from meaningfulLoop_same [OF assms(1) this full] obtain kept sprites
    where "meaningfulLoop rt actions [] [] = Some kept"
      and "foldActions rt kept [] = Some sprites"
      and same: "list_all2 sameSprite sprites full"
    by blast
  moreover from same have "map eraseZeroSign sprites = map eraseZeroSign full"
    by (simp add: sameSprites_iff)
  moreover from same have "hasNoNaN full \<longrightarrow> areSpriteArraysEqual sprites full"
    by (simp add: same_areSpriteArraysEqual)
  ultimately show ?thesis
    by (simp add: getMeaningfulActions_def getSprites_def)
qed

definition scaledSpriteOfA :: "Sprite list" where
  "scaledSpriteOfA =
     [\<lparr>sp_name = ''a'', sp_id = 0, sp_image = imageA, sp_x = Fin (- 50), sp_y = Fin (- 25),
       sp_width = Fin 200\<rparr>]"

theorem meaningful_actions_same_sprites_witness:
  "zeroSignCongruent exactRuntime \<and>
   getSprites exactRuntime [Create imageA, Translate 0 (Fin 0) (Fin 0), Scale 0 (Fin 200)] None
     = Some scaledSpriteOfA \<and>
   hasNoNaN scaledSpriteOfA \<and>
   getMeaningfulActions exactRuntime
       [Create imageA, Translate 0 (Fin 0) (Fin 0), Scale 0 (Fin 200)]
     = Some [Create imageA, Scale 0 (Fin 200)] \<and>
   getSprites exactRuntime [Create imageA, Scale 0 (Fin 200)] None = Some scaledSpriteOfA \<and>
   areSpriteArraysEqual scaledSpriteOfA scaledSpriteOfA"
proof -
  have z: "zeroSignCongruent exactRuntime" by (rule exactRuntime_zeroSignCongruent)
  have g: "getSprites exactRuntime
      [Create imageA, Translate 0 (Fin 0) (Fin 0), Scale 0 (Fin 200)] None
     = Some scaledSpriteOfA"
    by (simp add: getSprites_def create_imageA applySpriteTranslation_def
          applySpriteScaling_def Let_def imageA_fields exact_eval scaledSpriteOfA_def)
  have n: "hasNoNaN scaledSpriteOfA"
    by (simp add: hasNoNaN_def scaledSpriteOfA_def)
  have m: "getMeaningfulActions exactRuntime
       [Create imageA, Translate 0 (Fin 0) (Fin 0), Scale 0 (Fin 200)]
     = Some [Create imageA, Scale 0 (Fin 200)]"
    by (simp add: getMeaningfulActions_def create_imageA applySpriteTranslation_def
          applySpriteScaling_def Let_def imageA_fields exact_eval areSpriteArraysEqual_def
          areSpritesEqual_def js_eq_def)
  have k: "getSprites exactRuntime [Create imageA, Scale 0 (Fin 200)] None
     = Some scaledSpriteOfA"
    by (simp add: getSprites_def create_imageA applySpriteScaling_def Let_def imageA_fields
          exact_eval scaledSpriteOfA_def)
  from meaningful_actions_same_sprites [OF z g] m n z g k show ?thesis
    by auto
qed

section \<open>The aspect-ratio check of the import\<close>

definition documentA51 :: json where
  "documentA51 =
     JArr [JObj [(''spriteName'', JStr ''a''),
                 (''imageFileName'', JStr ''a.png''),
                 (''imageSha256'', JStr ''hashOfA''),
                 (''x'', JNum (Fin 0)), (''y'', JNum (Fin 0)),
                 (''width'', JNum (Fin 100)), (''height'', JNum (Fin 51))]]"

definition documentA49 :: json where
  "documentA49 =
     JArr [JObj [(''spriteName'', JStr ''a''),
                 (''imageFileName'', JStr ''a.png''),
                 (''imageSha256'', JStr ''hashOfA''),
                 (''x'', JNum (Fin 0)), (''y'', JNum (Fin 0)),
                 (''width'', JNum (Fin 100)), (''height'', JNum (Fin 49))]]"

text \<open>
  The check is one-sided. A record whose ratio is above the ratio of the image by
  more than the tolerance is refused:
\<close>

lemma import_refuses_flatter_record:
  "importSpriteDotJson exactRuntime [documentA49] [imageA] =
     Inl (AspectRatioMismatch 0 0 (Fin 100) (Fin 50) (Fin 100) (Fin 49))"
  by (simp add: importSpriteDotJson_def documentA49_def check_eval imageA_fields exact_eval)

text \<open>
  Claim C1 does not hold of the code. The document of the claim, a record of
  width 100 and height 51 for the 100 by 50 image, is accepted: the import
  succeeds with a \<open>BulkImport\<close> action, since \<open>100 / 51 - 100 / 50\<close> is negative and
  the source compares the difference, not its absolute value, with the tolerance.
\<close>

theorem import_accepts_taller_record:
  "importSpriteDotJson exactRuntime [documentA51] [imageA] =
     Inr (BulkImport [\<lparr>is_spriteName = ''a'', is_image = imageA, is_x = Fin 0, is_y = Fin 0,
                       is_width = Fin 100\<rparr>])"
  by (simp add: importSpriteDotJson_def documentA51_def check_eval imageA_fields exact_eval)

section \<open>Export followed by import\<close>

lemma scaled_imageA:
  "getSprites exactRuntime [Create imageA, Scale 0 (Fin 0)] None =
     Some [\<lparr>sp_name = ''a'', sp_id = 0, sp_image = imageA, sp_x = Fin 50, sp_y = Fin 25,
             sp_width = Fin 0\<rparr>]"
  by (simp add: getSprites_def create_imageA applySpriteScaling_def Let_def imageA_fields
        exact_eval)

text \<open>
  Claim C9 does not hold of the code: a sprite scaled to the width 0 is exported
  with width 0 and height 0, and the import refuses the record, since \<open>0 / 0\<close> is
  \<open>NaN\<close> and the comparison of the aspect-ratio check is false on it. The
  validator admits the width 0 and the height 0 as such, and accepts a record of
  width 0 with a positive height.
\<close>

theorem zero_width_sprite_not_reimported:
  "getSprites exactRuntime [Create imageA, Scale 0 (Fin 0)] None =
     Some [\<lparr>sp_name = ''a'', sp_id = 0, sp_image = imageA, sp_x = Fin 50, sp_y = Fin 25,
             sp_width = Fin 0\<rparr>] \<and>
   importSpriteDotJson exactRuntime
     [serializeSprites exactRuntime
        [\<lparr>sp_name = ''a'', sp_id = 0, sp_image = imageA, sp_x = Fin 50, sp_y = Fin 25,
          sp_width = Fin 0\<rparr>]]
     [imageA]
     = Inl (AspectRatioMismatch 0 0 (Fin 100) (Fin 50) (Fin 0) (Fin 0))"
  by (simp add: scaled_imageA serializeSprites_def spriteExportData_def jsonNumber_def
        importSpriteDotJson_def check_eval imageA_fields exact_eval)

lemma zero_width_record_with_height_accepted:
  "importSpriteDotJson exactRuntime
     [JArr [JObj [(''spriteName'', JStr ''a''),
                  (''imageFileName'', JStr ''a.png''),
                  (''imageSha256'', JStr ''hashOfA''),
                  (''x'', JNum (Fin 50)), (''y'', JNum (Fin 25)),
                  (''width'', JNum (Fin 0)), (''height'', JNum (Fin 5))]]]
     [imageA]
     = Inr (BulkImport [\<lparr>is_spriteName = ''a'', is_image = imageA, is_x = Fin 50,
                         is_y = Fin 25, is_width = Fin 0\<rparr>])"
  by (simp add: importSpriteDotJson_def check_eval imageA_fields exact_eval)

section \<open>The redo stack\<close>

text \<open>
  The editing paths that append an action and set the redo stack to the empty
  array in the same update.
\<close>

lemma create_clears_redo:
  "st_actions (createSpriteFromImage img st) = st_actions st @ [Create img] \<and>
   st_redoStack (createSpriteFromImage img st) = []"
  by (simp add: createSpriteFromImage_def)

lemma paste_clears_redo:
  "pb_mode (st_pasteBuffer st) \<noteq> NoOp \<Longrightarrow>
   length (st_actions (applyPasteBuffer rt target st)) = Suc (length (st_actions st)) \<and>
   st_redoStack (applyPasteBuffer rt target st) = []"
  by (cases "pb_mode (st_pasteBuffer st)")
     (simp_all add: applyPasteBuffer_def applyWidthPaste_def applyHeightPaste_def Let_def)

lemma gesture_clears_redo:
  "st_pendingTransformation st = Some (PendingScale d sx sy cx cy) \<Longrightarrow>
   toLowerCase key = ''s'' \<Longrightarrow>
   onWindowKeyup rt False key selected answer st = Some st' \<Longrightarrow>
   length (st_actions st') = Suc (length (st_actions st)) \<and> st_redoStack st' = []"
  "st_pendingTransformation st = Some (PendingTranslate d sx sy cx cy) \<Longrightarrow>
   toLowerCase key = ''t'' \<Longrightarrow>
   onWindowKeyup rt False key selected answer st = Some st' \<Longrightarrow>
   length (st_actions st') = Suc (length (st_actions st)) \<and> st_redoStack st' = []"
  by (auto simp: onWindowKeyup_def Let_def split: option.splits)

lemma sprite_keys_clear_redo:
  "st_pendingTransformation st = None \<Longrightarrow>
   toLowerCase key \<in> {''x'', ''d'', ''u'', ''i'', ''j'', ''k''} \<Longrightarrow>
   \<exists>st'. onWindowKeyup rt False key (Some selectedSprite) answer st = Some st' \<and>
     length (st_actions st') = Suc (length (st_actions st)) \<and> st_redoStack st' = []"
  by (auto simp: onWindowKeyup_def Let_def)

lemma rename_clears_redo:
  "st_pendingTransformation st = None \<Longrightarrow> toLowerCase key = ''n'' \<Longrightarrow> \<not> isBlank newName \<Longrightarrow>
   \<exists>st'. onWindowKeyup rt False key (Some selectedSprite) (Some newName) st = Some st' \<and>
     st_actions st' = st_actions st @ [Rename (sp_id selectedSprite) newName] \<and>
     st_redoStack st' = []"
  by (simp add: onWindowKeyup_def Let_def)

definition documentA :: json where
  "documentA =
     JArr [JObj [(''spriteName'', JStr ''a''),
                 (''imageFileName'', JStr ''a.png''),
                 (''imageSha256'', JStr ''hashOfA''),
                 (''x'', JNum (Fin 0)), (''y'', JNum (Fin 0)),
                 (''width'', JNum (Fin 100)), (''height'', JNum (Fin 50))]]"

text \<open>
  A state with a redo stack that is not empty: the image is in the library, a
  sprite is created from it, and the creation is undone.
\<close>

definition stateBeforeUndo :: State where
  "stateBeforeUndo = createSpriteFromImage imageA (initialState\<lparr>st_imageFiles := [imageA]\<rparr>)"

definition stateAfterUndo :: State where
  "stateAfterUndo = stateBeforeUndo\<lparr>st_actions := [], st_redoStack := [Create imageA]\<rparr>"

lemma stateAfterUndo_reached:
  "onWindowKeyup exactRuntime False ''z'' None None stateBeforeUndo = Some stateAfterUndo"
  by (simp add: stateAfterUndo_def stateBeforeUndo_def onWindowKeyup_def
        createSpriteFromImage_def initialState_def toLowerCase_def lowerChar_def
        getMeaningfulActions_def create_imageA areSpriteArraysEqual_def)

lemma stateAfterUndo_fields:
  "st_actions stateAfterUndo = []" "st_redoStack stateAfterUndo = [Create imageA]"
  "st_imageFiles stateAfterUndo = [imageA]"
  by (simp_all add: stateAfterUndo_def stateBeforeUndo_def createSpriteFromImage_def
        initialState_def)

text \<open>
  Claim C2 does not hold of the code on the import path. A successful import in
  that state appends its \<open>BulkImport\<close> action to the log and leaves the redo stack
  as it was, with the undone \<open>Create\<close> on it.
\<close>

theorem import_keeps_redo_stack:
  "st_actions (fst (onJsonFileInputChange exactRuntime [documentA] stateAfterUndo)) =
     [BulkImport [\<lparr>is_spriteName = ''a'', is_image = imageA, is_x = Fin 0, is_y = Fin 0,
                   is_width = Fin 100\<rparr>]] \<and>
   st_redoStack (fst (onJsonFileInputChange exactRuntime [documentA] stateAfterUndo))
     = [Create imageA]"
  by (simp add: onJsonFileInputChange_def importSpriteDotJson_def stateAfterUndo_fields
        documentA_def check_eval imageA_fields exact_eval)

end
